theory Spec2Isabelle
  imports Complex_Main "HOL-Library.Sublist"
begin

section \<open>Pose interpretation pipeline of script.js\<close>

text \<open>
  A shallow embedding of the pose-interpretation functions of \<^verbatim>\<open>src/script.js\<close>.

  Numbers. JavaScript numbers are IEEE 754 doubles. A keypoint's coordinates and its
  confidence score are finite numbers, written as \<^typ>\<open>real\<close>; counters are \<^typ>\<open>nat\<close>
  or \<^typ>\<open>int\<close>, and readings of \<^verbatim>\<open>Date.now()\<close> are \<^typ>\<open>int\<close> (milliseconds).
  A number that the code computes is a \<open>jsnum\<close>: a finite value, an infinity or NaN.
  The posture score, the body-position classifier and the knee angle are modelled in
  double arithmetic: every operation rounds its exact result to the nearest double
  (\<open>rnd\<close> below), overflows to an infinity and passes NaN on. The three functions whose
  results ECMAScript leaves to the implementation (\<^verbatim>\<open>**\<close>, \<^verbatim>\<open>Math.sqrt\<close> and
  \<^verbatim>\<open>Math.acos\<close>, outside the arguments for which it fixes the result) are taken from a
  parameter, the \<open>platform\<close>. Negative zero is not told apart from zero. The repetition
  counter, the fall-risk module and the scoliosis module are written over the reals,
  the division of the fall-risk module with JavaScript's results for a zero divisor.

  State. The global \<^verbatim>\<open>let\<close> variables the modelled functions read or write are the
  fields of the record \<open>state\<close>; every function takes the state and returns the new one.
  Of the page, the model keeps the squat indicator, the three scoliosis read-outs (which
  \<^verbatim>\<open>captureReading\<close> reads back) and the messages shown by \<^verbatim>\<open>alert\<close>; the other
  display writes (debug texts, score panels, the status line, downloads) are not modelled.
\<close>

subsection \<open>Keypoints and frames\<close>

record keypoint =
  kp_x :: real
  kp_y :: real
  kp_score :: real

text \<open>
  \<^verbatim>\<open>pose.keypoints\<close> is an array whose entries may be missing; \<^verbatim>\<open>keypoints[i]\<close> is
  \<^verbatim>\<open>undefined\<close> past the end of the array, and \<^verbatim>\<open>!undefined\<close> is true.
\<close>

type_synonym keypoints = "keypoint option list"

definition kp :: "keypoints \<Rightarrow> nat \<Rightarrow> keypoint option" where
  "kp ks i = (if i < length ks then ks ! i else None)"

record point =
  px :: real
  py :: real

definition js_round :: "real \<Rightarrow> int" where
  \<comment> \<open>\<^verbatim>\<open>Math.round\<close>: the nearest integer, halves rounded up.\<close>
  "js_round v = \<lfloor>v + 1 / 2\<rfloor>"

subsection \<open>Numbers: finite values, infinities and NaN\<close>

datatype jsnum = Fin real | PosInf | NegInf | NaN

definition js_div :: "real \<Rightarrow> real \<Rightarrow> jsnum" where
  \<comment> \<open>\<^verbatim>\<open>a / b\<close> for finite \<open>a\<close> and \<open>b\<close>, a zero divisor being \<open>+0\<close>.\<close>
  "js_div a b =
     (if b \<noteq> 0 then Fin (a / b)
      else if 0 < a then PosInf
      else if a < 0 then NegInf
      else NaN)"

fun js_min :: "jsnum \<Rightarrow> jsnum \<Rightarrow> jsnum" where
  \<comment> \<open>\<^verbatim>\<open>Math.min\<close> of two numbers.\<close>
  "js_min NaN _ = NaN"
| "js_min _ NaN = NaN"
| "js_min NegInf _ = NegInf"
| "js_min _ NegInf = NegInf"
| "js_min PosInf b = b"
| "js_min a PosInf = a"
| "js_min (Fin a) (Fin b) = Fin (min a b)"

fun js_less :: "jsnum \<Rightarrow> jsnum \<Rightarrow> bool" where
  \<comment> \<open>The comparison \<^verbatim>\<open><\<close>: false as soon as one side is NaN.\<close>
  "js_less NaN _ = False"
| "js_less _ NaN = False"
| "js_less _ NegInf = False"
| "js_less NegInf _ = True"
| "js_less PosInf _ = False"
| "js_less (Fin a) PosInf = True"
| "js_less (Fin a) (Fin b) = (a < b)"

fun js_max :: "jsnum \<Rightarrow> jsnum \<Rightarrow> jsnum" where
  \<comment> \<open>\<^verbatim>\<open>Math.max\<close> of two numbers.\<close>
  "js_max NaN _ = NaN"
| "js_max _ NaN = NaN"
| "js_max PosInf _ = PosInf"
| "js_max _ PosInf = PosInf"
| "js_max NegInf b = b"
| "js_max a NegInf = a"
| "js_max (Fin a) (Fin b) = Fin (max a b)"

fun js_abs :: "jsnum \<Rightarrow> jsnum" where
  \<comment> \<open>\<^verbatim>\<open>Math.abs\<close>.\<close>
  "js_abs (Fin a) = Fin \<bar>a\<bar>"
| "js_abs PosInf = PosInf"
| "js_abs NegInf = PosInf"
| "js_abs NaN = NaN"

fun Math_round :: "jsnum \<Rightarrow> jsnum" where
  \<comment> \<open>\<^verbatim>\<open>Math.round\<close>: the nearest integer, halves rounded up; an infinity and NaN are
      returned as they are.\<close>
  "Math_round (Fin a) = Fin (of_int (js_round a))"
| "Math_round v = v"

subsection \<open>Double arithmetic\<close>

text \<open>
  The doubles are the binary64 numbers: 53 significant bits, exponents from \<open>-1022\<close> to
  1023, subnormal numbers below. \<open>rnd v\<close> is the double nearest to the real \<open>v\<close>, a tie
  going to the even significand; from \<open>2 ^ 1024 - 2 ^ 970\<close> on, the magnitude rounds to
  an infinity. A numeric literal of the source is \<open>rnd\<close> of the number written.
\<close>

definition rhe :: "real \<Rightarrow> int" where
  \<comment> \<open>The nearest integer, a half going to the even neighbour.\<close>
  "rhe r =
     (let n = \<lfloor>r\<rfloor>; f = r - of_int n
      in if f < 1 / 2 then n else if 1 / 2 < f then n + 1 else if even n then n else n + 1)"

definition expo :: "real \<Rightarrow> int" where
  \<comment> \<open>The binary exponent of a number that is not zero, at least that of the
      subnormal numbers.\<close>
  "expo v = max \<lfloor>log 2 \<bar>v\<bar>\<rfloor> (- 1022)"

definition rnd :: "real \<Rightarrow> jsnum" where
  "rnd v =
     (if v = 0 then Fin 0
      else if 2 ^ 1024 - 2 ^ 970 \<le> \<bar>v\<bar> then (if 0 < v then PosInf else NegInf)
      else Fin (of_int (rhe (v / 2 powi (expo v - 52))) * 2 powi (expo v - 52)))"

fun fl_neg :: "jsnum \<Rightarrow> jsnum" where
  "fl_neg (Fin a) = Fin (- a)"
| "fl_neg PosInf = NegInf"
| "fl_neg NegInf = PosInf"
| "fl_neg NaN = NaN"

fun fl_add :: "jsnum \<Rightarrow> jsnum \<Rightarrow> jsnum" where
  "fl_add NaN _ = NaN"
| "fl_add _ NaN = NaN"
| "fl_add PosInf NegInf = NaN"
| "fl_add NegInf PosInf = NaN"
| "fl_add PosInf _ = PosInf"
| "fl_add _ PosInf = PosInf"
| "fl_add NegInf _ = NegInf"
| "fl_add _ NegInf = NegInf"
| "fl_add (Fin a) (Fin b) = rnd (a + b)"

definition fl_sub :: "jsnum \<Rightarrow> jsnum \<Rightarrow> jsnum" where
  "fl_sub a b = fl_add a (fl_neg b)"

fun fl_mul :: "jsnum \<Rightarrow> jsnum \<Rightarrow> jsnum" where
  "fl_mul NaN _ = NaN"
| "fl_mul _ NaN = NaN"
| "fl_mul PosInf PosInf = PosInf"
| "fl_mul PosInf NegInf = NegInf"
| "fl_mul NegInf PosInf = NegInf"
| "fl_mul NegInf NegInf = PosInf"
| "fl_mul PosInf (Fin b) = (if b = 0 then NaN else if 0 < b then PosInf else NegInf)"
| "fl_mul NegInf (Fin b) = (if b = 0 then NaN else if 0 < b then NegInf else PosInf)"
| "fl_mul (Fin a) PosInf = (if a = 0 then NaN else if 0 < a then PosInf else NegInf)"
| "fl_mul (Fin a) NegInf = (if a = 0 then NaN else if 0 < a then NegInf else PosInf)"
| "fl_mul (Fin a) (Fin b) = rnd (a * b)"

fun fl_div :: "jsnum \<Rightarrow> jsnum \<Rightarrow> jsnum" where
  \<comment> \<open>A zero divisor is \<open>+0\<close>.\<close>
  "fl_div NaN _ = NaN"
| "fl_div _ NaN = NaN"
| "fl_div PosInf PosInf = NaN"
| "fl_div PosInf NegInf = NaN"
| "fl_div NegInf PosInf = NaN"
| "fl_div NegInf NegInf = NaN"
| "fl_div PosInf (Fin b) = (if b < 0 then NegInf else PosInf)"
| "fl_div NegInf (Fin b) = (if b < 0 then PosInf else NegInf)"
| "fl_div (Fin a) PosInf = Fin 0"
| "fl_div (Fin a) NegInf = Fin 0"
| "fl_div (Fin a) (Fin b) =
     (if b = 0 then (if 0 < a then PosInf else if a < 0 then NegInf else NaN)
      else rnd (a / b))"

definition Math_PI :: real where
  \<comment> \<open>The double nearest to \<open>\<pi>\<close>, 3.141592653589793.\<close>
  "Math_PI = 884279719003555 / 2 ^ 48"

text \<open>
  ECMAScript fixes the result of \<^verbatim>\<open>x ** 2\<close>, \<^verbatim>\<open>Math.sqrt(x)\<close> and \<^verbatim>\<open>Math.acos(x)\<close>
  for the arguments listed below and asks for an implementation-approximated value
  otherwise. These approximations are the three fields of a platform.
\<close>

record platform =
  sq_approx :: "real \<Rightarrow> jsnum"
  sqrt_approx :: "real \<Rightarrow> jsnum"
  acos_approx :: "real \<Rightarrow> jsnum"

fun js_square :: "platform \<Rightarrow> jsnum \<Rightarrow> jsnum" where
  \<comment> \<open>\<^verbatim>\<open>x ** 2\<close>.\<close>
  "js_square P NaN = NaN"
| "js_square P PosInf = PosInf"
| "js_square P NegInf = PosInf"
| "js_square P (Fin a) = (if a = 0 then Fin 0 else sq_approx P a)"

fun Math_sqrt :: "platform \<Rightarrow> jsnum \<Rightarrow> jsnum" where
  "Math_sqrt P NaN = NaN"
| "Math_sqrt P PosInf = PosInf"
| "Math_sqrt P NegInf = NaN"
| "Math_sqrt P (Fin a) = (if a < 0 then NaN else if a = 0 then Fin 0 else sqrt_approx P a)"

fun Math_acos :: "platform \<Rightarrow> jsnum \<Rightarrow> jsnum" where
  "Math_acos P NaN = NaN"
| "Math_acos P PosInf = NaN"
| "Math_acos P NegInf = NaN"
| "Math_acos P (Fin a) =
     (if 1 < a \<or> a < - 1 then NaN else if a = 1 then Fin 0 else acos_approx P a)"

definition correctlyRounded :: platform where
  \<comment> \<open>The platform whose three functions return the double nearest to the exact
      result.\<close>
  "correctlyRounded =
     \<lparr>sq_approx = (\<lambda>a. rnd (a * a)), sqrt_approx = (\<lambda>a. rnd (sqrt a)),
      acos_approx = (\<lambda>a. rnd (arccos a))\<rparr>"

subsection \<open>The global state\<close>

record posture_entry =
  pa_timestamp :: int
  pa_score :: jsnum
  pa_grade :: string
  pa_shoulderSlope :: jsnum
  pa_headDeviation :: jsnum
  pa_spineDeviation :: jsnum

record fall_entry =
  fr_timestamp :: int
  fr_fallRisk :: int
  fr_balanceScore :: int
  fr_lateralSway :: real
  fr_stability :: jsnum

record reading =
  rd_timestamp :: int
  rd_cobbAngle :: "int option"
  rd_trunkRotation :: "int option"
  rd_shoulderLevel :: "int option"

record session =
  ses_startTime :: int
  ses_exercises :: int
  ses_accuracy :: int
  ses_notes :: "string list"

record state =
  exerciseMode :: bool
  exerciseCount :: int
  squatState :: string
  stateFrameCount :: nat
  lastSquatTime :: int
  medicalMode :: string
  postureAssessments :: "posture_entry list"
  fallRiskHistory :: "fall_entry list"
  exerciseSession :: "session option"
  scoliosisReadings :: "reading list"
  balanceTestActive :: bool
  balanceTestStartTime :: "int option"
  squatIndicator :: "string \<times> string"
  cobbAngleShown :: "int option"
  trunkRotationShown :: "int option"
  shoulderLevelShown :: "int option"
  alerts :: "string list"

definition minStateFrames :: nat where
  "minStateFrames = 3"

definition balanceTestDuration :: int where
  "balanceTestDuration = 30000"

definition initialState :: state where
  \<comment> \<open>The initial values of the globals (lines 16 to 39); the page shows nothing yet.\<close>
  "initialState =
     \<lparr> exerciseMode = False, exerciseCount = 0, squatState = ''up'', stateFrameCount = 0,
       lastSquatTime = 0, medicalMode = ''posture'', postureAssessments = [],
       fallRiskHistory = [], exerciseSession = None, scoliosisReadings = [],
       balanceTestActive = False, balanceTestStartTime = None,
       squatIndicator = ('''', ''''), cobbAngleShown = None, trunkRotationShown = None,
       shoulderLevelShown = None, alerts = [] \<rparr>"

subsection \<open>The repetition counter (countSquats)\<close>

definition updateSquatIndicator :: "string \<Rightarrow> string \<Rightarrow> state \<Rightarrow> state" where
  "updateSquatIndicator message className st =
     st\<lparr>squatIndicator := (message, ''squat-indicator '' @ className)\<rparr>"

definition squatWaiting :: "keypoints \<Rightarrow> bool" where
  \<comment> \<open>The guard of lines 647 to 649. The scores are read only of keypoints that are
      there: with a keypoint missing the disjunction is already true.\<close>
  "squatWaiting ks =
     (kp ks 11 = None \<or> kp ks 12 = None \<or> kp ks 13 = None \<or> kp ks 14 = None \<or>
      kp_score (the (kp ks 11)) < 0.4 \<or> kp_score (the (kp ks 12)) < 0.4 \<or>
      kp_score (the (kp ks 13)) < 0.4 \<or> kp_score (the (kp ks 14)) < 0.4)"

definition squatHipKneeDiff :: "keypoints \<Rightarrow> real" where
  \<comment> \<open>Lines 654 to 656, reached only when the four keypoints are there.\<close>
  "squatHipKneeDiff ks =
     (let avgHipY = (kp_y (the (kp ks 11)) + kp_y (the (kp ks 12))) / 2;
          avgKneeY = (kp_y (the (kp ks 13)) + kp_y (the (kp ks 14))) / 2
      in avgKneeY - avgHipY)"

definition squatNewState :: "keypoints \<Rightarrow> state \<Rightarrow> string" where
  \<comment> \<open>Lines 658 to 665: the raw state of the frame.\<close>
  "squatNewState ks st =
     (let hipKneeDiff = squatHipKneeDiff ks
      in if hipKneeDiff < 50 then ''down''
         else if hipKneeDiff > 90 then ''up''
         else squatState st)"

definition squatStateIndicator :: "state \<Rightarrow> state" where
  \<comment> \<open>Lines 706 to 712.\<close>
  "squatStateIndicator st =
     (if squatState st = ''down''
        then updateSquatIndicator ''In squat position - stand up to count'' ''squat-down'' st
      else if squatState st = ''up''
        then updateSquatIndicator ''Standing - squat down to continue'' ''squat-up'' st
      else updateSquatIndicator ''Moving...'' ''squat-transition'' st)"

definition countSquats :: "int \<Rightarrow> int \<Rightarrow> keypoints \<Rightarrow> state \<Rightarrow> state" where
  \<comment> \<open>Lines 640 to 713. \<open>now1\<close> and \<open>now2\<close> are the two readings of \<^verbatim>\<open>Date.now()\<close>
      (lines 680 and 683). The message of line 685 ends in an emoji, left out here; the
      indicator is overwritten at lines 706 to 712 in any case.\<close>
  "countSquats now1 now2 ks st =
     (if squatWaiting ks
        then updateSquatIndicator ''Waiting for clear pose...'' ''squat-transition'' st
      else
        let newState = squatNewState ks st in
        if newState \<noteq> squatState st then
          if stateFrameCount st < minStateFrames
            then st\<lparr>stateFrameCount := stateFrameCount st + 1\<rparr>
          else
            let st1 =
              (if squatState st = ''down'' \<and> newState = ''up'' then
                 let timeSinceLastSquat = now1 - lastSquatTime st in
                 if timeSinceLastSquat > 1500
                   then updateSquatIndicator ''Squat completed!'' ''squat-up''
                          (st\<lparr>exerciseCount := exerciseCount st + 1, lastSquatTime := now2\<rparr>)
                 else st
               else st)
            in squatStateIndicator (st1\<lparr>squatState := newState, stateFrameCount := 0\<rparr>)
        else squatStateIndicator (st\<lparr>stateFrameCount := stateFrameCount st + 1\<rparr>))"

text \<open>A run of the counter over a list of frames, each with its two clock readings.\<close>

fun countSquatsRun :: "(int \<times> int \<times> keypoints) list \<Rightarrow> state \<Rightarrow> state" where
  "countSquatsRun [] st = st"
| "countSquatsRun ((now1, now2, ks) # frames) st =
     countSquatsRun frames (countSquats now1 now2 ks st)"

subsection \<open>The body-position classifier (determineBodyPosition)\<close>

record jspoint =
  jx :: jsnum
  jy :: jsnum

definition midpoint :: "keypoint \<Rightarrow> keypoint \<Rightarrow> jspoint" where
  \<comment> \<open>The object \<^verbatim>\<open>{x: (l.x + r.x) / 2, y: (l.y + r.y) / 2}\<close> of a left and a right keypoint.\<close>
  "midpoint l r =
     \<lparr>jx = fl_div (fl_add (Fin (kp_x l)) (Fin (kp_x r))) (Fin 2),
      jy = fl_div (fl_add (Fin (kp_y l)) (Fin (kp_y r))) (Fin 2)\<rparr>"

definition armMagnitude :: "platform \<Rightarrow> jspoint \<Rightarrow> jspoint \<Rightarrow> jsnum" where
  \<comment> \<open>Lines 519 to 533: the length of the vector from the knee to \<open>p\<close>.\<close>
  "armMagnitude P p knee =
     (let vectorX = fl_sub (jx p) (jx knee); vectorY = fl_sub (jy p) (jy knee)
      in Math_sqrt P (fl_add (js_square P vectorX) (js_square P vectorY)))"

definition kneeCosine :: "platform \<Rightarrow> jspoint \<Rightarrow> jspoint \<Rightarrow> jspoint \<Rightarrow> jsnum" where
  \<comment> \<open>Lines 519 to 537: \<open>cosAngle\<close>.\<close>
  "kneeCosine P hip knee ankle =
     (let hipVectorX = fl_sub (jx hip) (jx knee); hipVectorY = fl_sub (jy hip) (jy knee);
          ankleVectorX = fl_sub (jx ankle) (jx knee); ankleVectorY = fl_sub (jy ankle) (jy knee);
          dotProduct = fl_add (fl_mul hipVectorX ankleVectorX) (fl_mul hipVectorY ankleVectorY);
          hipMagnitude = armMagnitude P hip knee;
          ankleMagnitude = armMagnitude P ankle knee
      in fl_div dotProduct (fl_mul hipMagnitude ankleMagnitude))"

definition calculateKneeAngle :: "platform \<Rightarrow> jspoint \<Rightarrow> jspoint \<Rightarrow> jspoint \<Rightarrow> jsnum" where
  \<comment> \<open>Lines 517 to 541. The test \<^verbatim>\<open>=== 0\<close> is false of NaN.\<close>
  "calculateKneeAngle P hip knee ankle =
     (let hipMagnitude = armMagnitude P hip knee;
          ankleMagnitude = armMagnitude P ankle knee
      in if hipMagnitude = Fin 0 \<or> ankleMagnitude = Fin 0 then Fin 0
         else
           let cosAngle = kneeCosine P hip knee ankle;
               angleRadians = Math_acos P (js_max (Fin (- 1)) (js_min (Fin 1) cosAngle))
           in fl_mul angleRadians (fl_div (Fin 180) (Fin Math_PI)))"

definition classifyWithAnkleShoulder ::
  "platform \<Rightarrow> jspoint \<Rightarrow> jspoint \<Rightarrow> jspoint \<Rightarrow> jspoint \<Rightarrow> string \<times> int" where
  \<comment> \<open>Lines 425 to 476: the position and the confidence when ankles and shoulders are seen.
      \<^verbatim>\<open>a > b\<close> is \<open>js_less b a\<close>.\<close>
  "classifyWithAnkleShoulder P avgHip avgKnee avgAnkle avgShoulder =
     (let hipKneeVerticalDiff = fl_sub (jy avgKnee) (jy avgHip);
          kneeAngleDegrees = calculateKneeAngle P avgHip avgKnee avgAnkle;
          hipShoulderVerticalDiff = fl_sub (jy avgShoulder) (jy avgHip);
          kneeAnkleVerticalDiff = fl_sub (jy avgAnkle) (jy avgKnee);
          isSittingAngle =
            (js_less (Fin 60) kneeAngleDegrees \<and> js_less kneeAngleDegrees (Fin 130));
          isSittingHeight =
            (js_less (Fin 30) hipKneeVerticalDiff \<and> js_less hipKneeVerticalDiff (Fin 150));
          isSittingPosture = js_less hipShoulderVerticalDiff (Fin (- 10));
          hasFootContact = js_less (Fin 10) kneeAnkleVerticalDiff
      in if isSittingAngle \<and> isSittingHeight \<and> isSittingPosture \<and> hasFootContact then
           (if js_less hipShoulderVerticalDiff (Fin (- 60)) then (''Sitting - Upright'', 90)
            else if js_less (Fin (- 30)) hipShoulderVerticalDiff then (''Sitting - Slouched'', 80)
            else (''Sitting'', 85))
         else if js_less (Fin 80) hipKneeVerticalDiff \<and> js_less (Fin 160) kneeAngleDegrees
           then (''Standing'', 90)
         else if js_less hipKneeVerticalDiff (Fin 30) \<and> js_less kneeAngleDegrees (Fin 90)
           then (''Squatting'', 85)
         else if js_less hipKneeVerticalDiff (Fin 60) \<and> js_less kneeAngleDegrees (Fin 130)
           then (''Partial Squat'', 75)
         else if js_less (Fin (- 10)) hipShoulderVerticalDiff \<and>
                 js_less (Fin 60) hipKneeVerticalDiff
           then (''Leaning/Bending'', 70)
         else (''Transitioning'', 60))"

definition classifyFallback :: "jsnum \<Rightarrow> string \<times> int" where
  \<comment> \<open>Lines 484 to 496: the original logic, from the hip to knee difference alone.\<close>
  "classifyFallback hipKneeVerticalDiff =
     (if js_less (Fin 80) hipKneeVerticalDiff then (''Standing'', 90)
      else if js_less hipKneeVerticalDiff (Fin 30) then (''Squatting'', 85)
      else if js_less hipKneeVerticalDiff (Fin 60) then (''Partial Squat'', 75)
      else (''Transitioning'', 60))"

definition determineBodyPosition :: "platform \<Rightarrow> keypoints \<Rightarrow> string \<times> int" where
  \<comment> \<open>Lines 376 to 504. The result is the pair written to the elements
      \<^verbatim>\<open>body-position\<close> and \<^verbatim>\<open>position-confidence\<close>. \<^verbatim>\<open>s > 0.4\<close> compares the score with the double 0.4.\<close>
  "determineBodyPosition P ks =
     (let leftHip = kp ks 11; rightHip = kp ks 12; leftKnee = kp ks 13; rightKnee = kp ks 14;
          leftAnkle = kp ks 15; rightAnkle = kp ks 16;
          leftShoulder = kp ks 5; rightShoulder = kp ks 6
      in if leftHip \<noteq> None \<and> rightHip \<noteq> None \<and> leftKnee \<noteq> None \<and> rightKnee \<noteq> None \<and>
            js_less (rnd 0.4) (Fin (kp_score (the leftHip))) \<and> js_less (rnd 0.4) (Fin (kp_score (the rightHip))) \<and>
            js_less (rnd 0.4) (Fin (kp_score (the leftKnee))) \<and> js_less (rnd 0.4) (Fin (kp_score (the rightKnee)))
         then
           let avgHip = midpoint (the leftHip) (the rightHip);
               avgKnee = midpoint (the leftKnee) (the rightKnee);
               hipKneeVerticalDiff = fl_sub (jy avgKnee) (jy avgHip);
               avgAnkle =
                 (if leftAnkle \<noteq> None \<and> rightAnkle \<noteq> None \<and>
                     js_less (rnd 0.3) (Fin (kp_score (the leftAnkle))) \<and> js_less (rnd 0.3) (Fin (kp_score (the rightAnkle)))
                  then Some (midpoint (the leftAnkle) (the rightAnkle)) else None);
               avgShoulder =
                 (if leftShoulder \<noteq> None \<and> rightShoulder \<noteq> None \<and>
                     js_less (rnd 0.4) (Fin (kp_score (the leftShoulder))) \<and> js_less (rnd 0.4) (Fin (kp_score (the rightShoulder)))
                  then Some (midpoint (the leftShoulder) (the rightShoulder)) else None)
           in if avgAnkle \<noteq> None \<and> avgShoulder \<noteq> None
                then classifyWithAnkleShoulder P avgHip avgKnee (the avgAnkle) (the avgShoulder)
              else classifyFallback hipKneeVerticalDiff
         else (''Unknown'', 0))"

subsection \<open>The medical assessment modules\<close>

definition postureScore :: "jsnum \<Rightarrow> jsnum \<Rightarrow> jsnum \<Rightarrow> jsnum" where
  \<comment> \<open>Lines 749 to 753.\<close>
  "postureScore shoulderSlope headDeviation spineDeviation =
     (let score0 = rnd 100;
          score1 = fl_sub score0 (js_min (fl_mul shoulderSlope (rnd 0.5)) (rnd 25));
          score2 = fl_sub score1 (js_min (fl_mul headDeviation (rnd 0.3)) (rnd 25));
          score3 = fl_sub score2 (js_min (fl_mul spineDeviation (rnd 0.4)) (rnd 25))
      in js_max (Fin 0) (Math_round score3))"

definition postureGrade :: "jsnum \<Rightarrow> string" where
  \<comment> \<open>Lines 756 to 760: four assignments one after the other.\<close>
  "postureGrade score =
     (let grade0 = ''A'';
          grade1 = (if js_less score (Fin 90) then ''B'' else grade0);
          grade2 = (if js_less score (Fin 75) then ''C'' else grade1);
          grade3 = (if js_less score (Fin 60) then ''D'' else grade2);
          grade4 = (if js_less score (Fin 45) then ''F'' else grade3)
      in grade4)"

definition postureEntry ::
  "int \<Rightarrow> keypoint \<Rightarrow> keypoint \<Rightarrow> keypoint \<Rightarrow> keypoint \<Rightarrow> keypoint \<Rightarrow> posture_entry" where
  \<comment> \<open>Lines 744 to 782: the measurements, the score, the grade and the entry stored.\<close>
  "postureEntry now nose leftShoulder rightShoulder leftHip rightHip =
     (let shoulderSlope = js_abs (fl_sub (Fin (kp_y leftShoulder)) (Fin (kp_y rightShoulder)));
          headDeviation =
            js_abs (fl_sub (Fin (kp_x nose))
              (fl_div (fl_add (Fin (kp_x leftShoulder)) (Fin (kp_x rightShoulder))) (Fin 2)));
          spineDeviation =
            js_abs (fl_sub
              (fl_div (fl_add (Fin (kp_x leftShoulder)) (Fin (kp_x rightShoulder))) (Fin 2))
              (fl_div (fl_add (Fin (kp_x leftHip)) (Fin (kp_x rightHip))) (Fin 2)));
          score = postureScore shoulderSlope headDeviation spineDeviation;
          grade = postureGrade score
      in \<lparr>pa_timestamp = now, pa_score = score, pa_grade = grade,
          pa_shoulderSlope = shoulderSlope, pa_headDeviation = headDeviation,
          pa_spineDeviation = spineDeviation\<rparr>)"

definition assessPosture :: "int \<Rightarrow> keypoints \<Rightarrow> state \<Rightarrow> state" where
  \<comment> \<open>Lines 733 to 783.\<close>
  "assessPosture now ks st =
     (let nose = kp ks 0; leftShoulder = kp ks 5; rightShoulder = kp ks 6;
          leftHip = kp ks 11; rightHip = kp ks 12
      in if nose = None \<or> leftShoulder = None \<or> rightShoulder = None \<or>
            leftHip = None \<or> rightHip = None
         then st
         else st\<lparr>postureAssessments := postureAssessments st @
                [postureEntry now (the nose) (the leftShoulder) (the rightShoulder)
                   (the leftHip) (the rightHip)]\<rparr>)"

definition fallEntry :: "int \<Rightarrow> keypoint \<Rightarrow> keypoint \<Rightarrow> keypoint \<Rightarrow> keypoint \<Rightarrow> fall_entry" where
  \<comment> \<open>Lines 795 to 839. \<open>lateralSway\<close> is a result of \<^verbatim>\<open>Math.abs\<close>, so a zero divisor
      is \<open>+0\<close>.\<close>
  "fallEntry now leftAnkle rightAnkle leftHip rightHip =
     (let comX = (kp_x leftHip + kp_x rightHip) / 2;
          baseCenterX = (kp_x leftAnkle + kp_x rightAnkle) / 2;
          lateralSway = \<bar>comX - baseCenterX\<bar>;
          baseWidth = \<bar>kp_x leftAnkle - kp_x rightAnkle\<bar>;
          stability =
            (if baseWidth > 0 then js_min (js_div baseWidth lateralSway) (Fin 2) else Fin 0);
          fallRisk0 = (0 :: int);
          fallRisk1 = (if lateralSway > 20 then fallRisk0 + 30 else fallRisk0);
          fallRisk2 = (if js_less stability (Fin 1) then fallRisk1 + 25 else fallRisk1);
          fallRisk3 = (if baseWidth < 50 then fallRisk2 + 20 else fallRisk2);
          fallRisk = min 100 fallRisk3;
          balanceScore = max 0 (100 - fallRisk)
      in \<lparr>fr_timestamp = now, fr_fallRisk = fallRisk, fr_balanceScore = balanceScore,
          fr_lateralSway = lateralSway, fr_stability = stability\<rparr>)"

definition assessFallRisk :: "int \<Rightarrow> keypoints \<Rightarrow> state \<Rightarrow> state" where
  \<comment> \<open>Lines 785 to 840.\<close>
  "assessFallRisk now ks st =
     (let leftAnkle = kp ks 15; rightAnkle = kp ks 16; leftHip = kp ks 11; rightHip = kp ks 12
      in if leftAnkle = None \<or> rightAnkle = None \<or> leftHip = None \<or> rightHip = None
         then st
         else st\<lparr>fallRiskHistory := fallRiskHistory st @
                [fallEntry now (the leftAnkle) (the rightAnkle) (the leftHip) (the rightHip)]\<rparr>)"

definition assessTherapySession :: "keypoints \<Rightarrow> state \<Rightarrow> state" where
  \<comment> \<open>Lines 842 to 864.\<close>
  "assessTherapySession ks st =
     (case exerciseSession st of
        None \<Rightarrow> st
      | Some ses \<Rightarrow>
          let leftShoulder = kp ks 5; rightShoulder = kp ks 6;
              formAccuracy =
                (if leftShoulder \<noteq> None \<and> rightShoulder \<noteq> None \<and>
                    \<bar>kp_y (the leftShoulder) - kp_y (the rightShoulder)\<bar> > 30
                 then 80 - 15 else 80)
          in st\<lparr>exerciseSession :=
                  Some (ses\<lparr>ses_accuracy := formAccuracy, ses_exercises := exerciseCount st\<rparr>)\<rparr>)"

definition avgPoint :: "keypoint \<Rightarrow> keypoint \<Rightarrow> point" where
  \<comment> \<open>Over the reals: the object \<^verbatim>\<open>{x: (l.x + r.x) / 2, y: (l.y + r.y) / 2}\<close> of a left and a right keypoint.\<close>
  "avgPoint l r = \<lparr>px = (kp_x l + kp_x r) / 2, py = (kp_y l + kp_y r) / 2\<rparr>"

definition atan2 :: "real \<Rightarrow> real \<Rightarrow> real" where
  \<comment> \<open>\<^verbatim>\<open>Math.atan2(y, x)\<close> on the reals.\<close>
  "atan2 b a =
     (if a > 0 then arctan (b / a)
      else if a < 0 then (if b \<ge> 0 then arctan (b / a) + pi else arctan (b / a) - pi)
      else if b > 0 then pi / 2
      else if b < 0 then - (pi / 2)
      else 0)"

definition assessScoliosis :: "keypoints \<Rightarrow> state \<Rightarrow> state" where
  \<comment> \<open>Lines 866 to 900. The three read-outs hold the rounded numbers; the unit printed
      after them and the alert text are left out.\<close>
  "assessScoliosis ks st =
     (let leftShoulder = kp ks 5; rightShoulder = kp ks 6; leftHip = kp ks 11; rightHip = kp ks 12
      in if leftShoulder = None \<or> rightShoulder = None \<or> leftHip = None \<or> rightHip = None
         then st
         else
           let ls = the leftShoulder; rs = the rightShoulder; lh = the leftHip; rh = the rightHip;
               shoulderAngle = atan2 (kp_y rs - kp_y ls) (kp_x rs - kp_x ls) * 180 / pi;
               hipAngle = atan2 (kp_y rh - kp_y lh) (kp_x rh - kp_x lh) * 180 / pi;
               cobbAngle = \<bar>shoulderAngle - hipAngle\<bar>;
               shoulderCenter = avgPoint ls rs;
               hipCenter = avgPoint lh rh;
               trunkRotation =
                 atan2 (px hipCenter - px shoulderCenter) (py shoulderCenter - py hipCenter)
                   * 180 / pi;
               shoulderLevelDiff = \<bar>kp_y ls - kp_y rs\<bar>
           in st\<lparr>cobbAngleShown := Some (js_round cobbAngle),
                 trunkRotationShown := Some (js_round \<bar>trunkRotation\<bar>),
                 shoulderLevelShown := Some (js_round shoulderLevelDiff)\<rparr>)"

definition analyzeMedicalPose :: "int \<Rightarrow> keypoints \<Rightarrow> state \<Rightarrow> state" where
  \<comment> \<open>Lines 716 to 731: the \<^verbatim>\<open>switch\<close> on the mode, which has no default case.\<close>
  "analyzeMedicalPose now ks st =
     (if medicalMode st = ''posture'' then assessPosture now ks st
      else if medicalMode st = ''fall'' then assessFallRisk now ks st
      else if medicalMode st = ''therapy'' then assessTherapySession ks st
      else if medicalMode st = ''scoliosis'' then assessScoliosis ks st
      else st)"

subsection \<open>User actions and timers\<close>

definition alert :: "string \<Rightarrow> state \<Rightarrow> state" where
  "alert message st = st\<lparr>alerts := alerts st @ [message]\<rparr>"

definition toggleExerciseMode :: "state \<Rightarrow> state" where
  \<comment> \<open>Lines 954 to 967.\<close>
  "toggleExerciseMode st = st\<lparr>exerciseMode := \<not> exerciseMode st\<rparr>"

definition switchMedicalTab :: "string \<Rightarrow> state \<Rightarrow> state" where
  \<comment> \<open>Lines 970 to 993.\<close>
  "switchMedicalTab mode st = st\<lparr>medicalMode := mode\<rparr>"

definition resetCounters :: "state \<Rightarrow> state" where
  \<comment> \<open>Lines 940 to 952. Of the four counters reset, \<open>exerciseCount\<close> is the one in the
      model.\<close>
  "resetCounters st = st\<lparr>exerciseCount := 0\<rparr>"

definition startBalanceTest :: "int \<Rightarrow> state \<Rightarrow> state" where
  \<comment> \<open>Lines 1049 to 1056; the progress timer started after them is not modelled.\<close>
  "startBalanceTest now st =
     (if balanceTestActive st then alert ''Balance test already in progress'' st
      else st\<lparr>balanceTestActive := True, balanceTestStartTime := Some now\<rparr>)"

definition updateBalanceTest :: "int \<Rightarrow> int \<Rightarrow> keypoints \<Rightarrow> state \<Rightarrow> state" where
  \<comment> \<open>Lines 1077 to 1090. \<open>now1\<close> is the clock reading of line 1080, \<open>now2\<close> the one
      \<open>assessFallRisk\<close> takes.
      A start time that is still \<^verbatim>\<open>null\<close> counts as 0 in the subtraction.\<close>
  "updateBalanceTest now1 now2 ks st =
     (if \<not> balanceTestActive st then st
      else
        let elapsed = now1 - (case balanceTestStartTime st of None \<Rightarrow> 0 | Some t \<Rightarrow> t);
            remaining = max 0 (real_of_int (balanceTestDuration - elapsed) / 1000)
        in if remaining \<le> 0 then st\<lparr>balanceTestActive := False\<rparr>
           else assessFallRisk now2 ks st)"

definition startPTSession :: "int \<Rightarrow> state \<Rightarrow> state" where
  \<comment> \<open>Lines 1092 to 1116.\<close>
  "startPTSession now st =
     (if exerciseSession st \<noteq> None then alert ''PT session already in progress'' st
      else
        let st1 = st\<lparr>exerciseSession :=
                     Some \<lparr>ses_startTime = now, ses_exercises = 0, ses_accuracy = 0,
                           ses_notes = []\<rparr>\<rparr>;
            st2 = (if \<not> exerciseMode st1 then toggleExerciseMode st1 else st1);
            st3 = st2\<lparr>medicalMode := ''therapy''\<rparr>
        in switchMedicalTab ''therapy'' st3)"

definition endPTSession :: "state \<Rightarrow> state" where
  \<comment> \<open>Lines 1118 to 1165. The report that is downloaded is not modelled.\<close>
  "endPTSession st =
     (if exerciseSession st = None then alert ''No active PT session'' st
      else st\<lparr>exerciseSession := None\<rparr>)"

definition startScoliosisScreen :: "state \<Rightarrow> state" where
  \<comment> \<open>Lines 1167 to 1173.\<close>
  "startScoliosisScreen st = switchMedicalTab ''scoliosis'' (st\<lparr>medicalMode := ''scoliosis''\<rparr>)"

definition captureReading :: "int \<Rightarrow> state \<Rightarrow> state" where
  \<comment> \<open>Lines 1175 to 1198. \<^verbatim>\<open>parseFloat\<close> of a read-out gives back the number
      \<open>assessScoliosis\<close> wrote there; \<open>None\<close> stands for a read-out not written yet.\<close>
  "captureReading now st =
     (if medicalMode st \<noteq> ''scoliosis'' then alert ''Switch to scoliosis screening first'' st
      else st\<lparr>scoliosisReadings := scoliosisReadings st @
             [\<lparr>rd_timestamp = now, rd_cobbAngle = cobbAngleShown st,
               rd_trunkRotation = trunkRotationShown st,
               rd_shoulderLevel = shoulderLevelShown st\<rparr>]\<rparr>)"

subsection \<open>Sessions: sequences of calls\<close>

datatype action =
    CountSquats int int keypoints
  | AnalyzeMedicalPose int keypoints
  | UpdateBalanceTest int int keypoints
  | StartBalanceTest int
  | StartPTSession int
  | EndPTSession
  | StartScoliosisScreen
  | CaptureReading int
  | SwitchMedicalTab string
  | ToggleExerciseMode
  | ResetCounters

fun perform :: "action \<Rightarrow> state \<Rightarrow> state" where
  "perform (CountSquats now1 now2 ks) st = countSquats now1 now2 ks st"
| "perform (AnalyzeMedicalPose now ks) st = analyzeMedicalPose now ks st"
| "perform (UpdateBalanceTest now1 now2 ks) st = updateBalanceTest now1 now2 ks st"
| "perform (StartBalanceTest now) st = startBalanceTest now st"
| "perform (StartPTSession now) st = startPTSession now st"
| "perform EndPTSession st = endPTSession st"
| "perform StartScoliosisScreen st = startScoliosisScreen st"
| "perform (CaptureReading now) st = captureReading now st"
| "perform (SwitchMedicalTab mode) st = switchMedicalTab mode st"
| "perform ToggleExerciseMode st = toggleExerciseMode st"
| "perform ResetCounters st = resetCounters st"

fun clockReadings :: "action \<Rightarrow> int list" where
  \<comment> \<open>The readings of \<^verbatim>\<open>Date.now()\<close> a call takes, in the order it takes them.\<close>
  "clockReadings (CountSquats now1 now2 ks) = [now1, now2]"
| "clockReadings (AnalyzeMedicalPose now ks) = [now]"
| "clockReadings (UpdateBalanceTest now1 now2 ks) = [now1, now2]"
| "clockReadings (StartBalanceTest now) = [now]"
| "clockReadings (StartPTSession now) = [now]"
| "clockReadings (CaptureReading now) = [now]"
| "clockReadings _ = []"

fun runSession :: "action list \<Rightarrow> state \<Rightarrow> state" where
  "runSession [] st = st"
| "runSession (a # as) st = runSession as (perform a st)"

text \<open>The same call repeated, once for each element of a list of inputs.\<close>

fun assessPostureCalls :: "(int \<times> keypoints) list \<Rightarrow> state \<Rightarrow> state" where
  "assessPostureCalls [] st = st"
| "assessPostureCalls (c # cs) st = assessPostureCalls cs (assessPosture (fst c) (snd c) st)"

fun assessFallRiskCalls :: "(int \<times> keypoints) list \<Rightarrow> state \<Rightarrow> state" where
  "assessFallRiskCalls [] st = st"
| "assessFallRiskCalls (c # cs) st = assessFallRiskCalls cs (assessFallRisk (fst c) (snd c) st)"

fun captureReadingCalls :: "int list \<Rightarrow> state \<Rightarrow> state" where
  "captureReadingCalls [] st = st"
| "captureReadingCalls (now # nows) st = captureReadingCalls nows (captureReading now st)"

section \<open>Notions used in the statements and proofs\<close>

text \<open>The keypoints a module needs are all there (the negation of its guard), and the
  entry it then appends.\<close>

definition postureKeypointsPresent :: "keypoints \<Rightarrow> bool" where
  "postureKeypointsPresent ks =
     (kp ks 0 \<noteq> None \<and> kp ks 5 \<noteq> None \<and> kp ks 6 \<noteq> None \<and> kp ks 11 \<noteq> None \<and> kp ks 12 \<noteq> None)"

definition postureEntryOf :: "int \<times> keypoints \<Rightarrow> posture_entry" where
  "postureEntryOf c =
     postureEntry (fst c) (the (kp (snd c) 0)) (the (kp (snd c) 5)) (the (kp (snd c) 6))
       (the (kp (snd c) 11)) (the (kp (snd c) 12))"

definition fallKeypointsPresent :: "keypoints \<Rightarrow> bool" where
  "fallKeypointsPresent ks =
     (kp ks 15 \<noteq> None \<and> kp ks 16 \<noteq> None \<and> kp ks 11 \<noteq> None \<and> kp ks 12 \<noteq> None)"

definition fallEntryOf :: "int \<times> keypoints \<Rightarrow> fall_entry" where
  "fallEntryOf c =
     fallEntry (fst c) (the (kp (snd c) 15)) (the (kp (snd c) 16))
       (the (kp (snd c) 11)) (the (kp (snd c) 12))"

definition readingOf :: "state \<Rightarrow> int \<Rightarrow> reading" where
  "readingOf st now =
     \<lparr>rd_timestamp = now, rd_cobbAngle = cobbAngleShown st,
      rd_trunkRotation = trunkRotationShown st, rd_shoulderLevel = shoulderLevelShown st\<rparr>"

text \<open>Every log is in the order of its timestamps, none of which is later than \<open>t\<close>.\<close>

definition logsUpTo :: "int \<Rightarrow> state \<Rightarrow> bool" where
  "logsUpTo t st =
     (sorted (map pa_timestamp (postureAssessments st) @ [t]) \<and>
      sorted (map fr_timestamp (fallRiskHistory st) @ [t]) \<and>
      sorted (map rd_timestamp (scoliosisReadings st) @ [t]))"

section \<open>Inputs and states used in the examples\<close>

text \<open>A frame of seventeen keypoints, all seen with score 0.9, with the hips at height
  \<open>hipY\<close> and the knees at height \<open>kneeY\<close>.\<close>

definition legsFrame :: "real \<Rightarrow> real \<Rightarrow> keypoints" where
  "legsFrame hipY kneeY =
     replicate 11 (Some \<lparr>kp_x = 0, kp_y = 0, kp_score = 0.9\<rparr>) @
     [Some \<lparr>kp_x = 0, kp_y = hipY, kp_score = 0.9\<rparr>,
      Some \<lparr>kp_x = 0, kp_y = hipY, kp_score = 0.9\<rparr>,
      Some \<lparr>kp_x = 0, kp_y = kneeY, kp_score = 0.9\<rparr>,
      Some \<lparr>kp_x = 0, kp_y = kneeY, kp_score = 0.9\<rparr>,
      Some \<lparr>kp_x = 0, kp_y = 200, kp_score = 0.9\<rparr>,
      Some \<lparr>kp_x = 0, kp_y = 200, kp_score = 0.9\<rparr>]"

definition lowHipFrame :: keypoints where
  \<comment> \<open>The left hip is seen with a score just under 0.4.\<close>
  "lowHipFrame = (legsFrame 0 100)[11 := Some \<lparr>kp_x = 0, kp_y = 0, kp_score = 0.39\<rparr>]"

definition downConfirmed :: "int \<Rightarrow> state" where
  \<comment> \<open>In the squat for three frames, four repetitions counted, the last at time \<open>t\<close>.\<close>
  "downConfirmed t =
     initialState\<lparr>squatState := ''down'', stateFrameCount := 3, exerciseCount := 4,
       lastSquatTime := t\<rparr>"

definition busyState :: state where
  \<comment> \<open>A balance test started at 1000 and a PT session started at 2000.\<close>
  "busyState = startPTSession 2000 (startBalanceTest 1000 initialState)"

text \<open>A person facing the camera, every keypoint seen with score \<open>s\<close>; the left
  shoulder is \<open>d\<close> lower than the right one.\<close>

definition personFrame :: "real \<Rightarrow> real \<Rightarrow> keypoints" where
  "personFrame d s =
     [Some \<lparr>kp_x = 0, kp_y = 0, kp_score = s\<rparr>,
      Some \<lparr>kp_x = 0, kp_y = 0, kp_score = s\<rparr>,
      Some \<lparr>kp_x = 0, kp_y = 0, kp_score = s\<rparr>,
      Some \<lparr>kp_x = 0, kp_y = 0, kp_score = s\<rparr>,
      Some \<lparr>kp_x = 0, kp_y = 0, kp_score = s\<rparr>,
      Some \<lparr>kp_x = - 50, kp_y = 100 + d, kp_score = s\<rparr>,
      Some \<lparr>kp_x = 50, kp_y = 100, kp_score = s\<rparr>,
      Some \<lparr>kp_x = 0, kp_y = 0, kp_score = s\<rparr>,
      Some \<lparr>kp_x = 0, kp_y = 0, kp_score = s\<rparr>,
      Some \<lparr>kp_x = 0, kp_y = 0, kp_score = s\<rparr>,
      Some \<lparr>kp_x = 0, kp_y = 0, kp_score = s\<rparr>,
      Some \<lparr>kp_x = - 30, kp_y = 300, kp_score = s\<rparr>,
      Some \<lparr>kp_x = 30, kp_y = 300, kp_score = s\<rparr>,
      Some \<lparr>kp_x = - 30, kp_y = 400, kp_score = s\<rparr>,
      Some \<lparr>kp_x = 30, kp_y = 400, kp_score = s\<rparr>,
      Some \<lparr>kp_x = - 20, kp_y = 500, kp_score = s\<rparr>,
      Some \<lparr>kp_x = 20, kp_y = 500, kp_score = s\<rparr>]"

text \<open>Seventeen keypoints with score 0.9 from the coordinates of the shoulders, hips,
  knees and ankles (left and right of each); the other keypoints are at the origin.\<close>

definition bodyFrame ::
  "real \<times> real \<Rightarrow> real \<times> real \<Rightarrow> real \<times> real \<Rightarrow> real \<times> real \<Rightarrow> real \<times> real \<Rightarrow> real \<times> real \<Rightarrow>
   real \<times> real \<Rightarrow> real \<times> real \<Rightarrow> keypoints" where
  "bodyFrame ls rs lh rh lk rk la ra =
     replicate 5 (Some \<lparr>kp_x = 0, kp_y = 0, kp_score = 0.9\<rparr>) @
     [Some \<lparr>kp_x = fst ls, kp_y = snd ls, kp_score = 0.9\<rparr>,
      Some \<lparr>kp_x = fst rs, kp_y = snd rs, kp_score = 0.9\<rparr>] @
     replicate 4 (Some \<lparr>kp_x = 0, kp_y = 0, kp_score = 0.9\<rparr>) @
     [Some \<lparr>kp_x = fst lh, kp_y = snd lh, kp_score = 0.9\<rparr>,
      Some \<lparr>kp_x = fst rh, kp_y = snd rh, kp_score = 0.9\<rparr>,
      Some \<lparr>kp_x = fst lk, kp_y = snd lk, kp_score = 0.9\<rparr>,
      Some \<lparr>kp_x = fst rk, kp_y = snd rk, kp_score = 0.9\<rparr>,
      Some \<lparr>kp_x = fst la, kp_y = snd la, kp_score = 0.9\<rparr>,
      Some \<lparr>kp_x = fst ra, kp_y = snd ra, kp_score = 0.9\<rparr>]"

text \<open>Standing with straight legs: hips at height 300, knees at 400, ankles at 500.\<close>

definition standingFrame :: keypoints where
  "standingFrame =
     bodyFrame (- 50, 95) (50, 105) (- 30, 296) (30, 304) (- 30, 398) (30, 402)
       (- 20, 497) (20, 503)"

text \<open>A deep squat: the knees 20 below the hips and the ankles back under the hips.\<close>

definition squattingFrame :: keypoints where
  "squattingFrame =
     bodyFrame (- 15, - 42) (15, - 38) (- 10, - 1) (10, 1) (- 10, 19) (10, 21)
       (- 12, - 2) (12, 2)"

text \<open>The nose 63 to the side of the shoulder centre and the shoulder centre 54 to the
  side of the hip centre, the shoulders level.\<close>

definition leaningFrame :: keypoints where
  "leaningFrame =
     (bodyFrame (0, 100) (100, 100) (- 34, 300) (26, 300) (- 34, 400) (26, 400)
        (- 34, 500) (26, 500))[0 := Some \<lparr>kp_x = 113, kp_y = 0, kp_score = 0.9\<rparr>]"

text \<open>A session: a posture assessment, a balance test with a fall-risk assessment,
  another posture assessment, and two scoliosis readings.\<close>

definition demoSession :: "action list" where
  "demoSession =
     [AnalyzeMedicalPose 1000 (personFrame 0 0.9), StartBalanceTest 1500,
      UpdateBalanceTest 2000 2001 (personFrame 0 0.9),
      AnalyzeMedicalPose 2500 (personFrame 60 0.9), StartScoliosisScreen,
      CaptureReading 3000, CaptureReading 3500]"

text \<open>A coordinate whose square is beyond the largest double, and one whose square is
  below the smallest.\<close>

definition huge :: real where
  "huge = 2 ^ 600"

definition tiny :: real where
  "tiny = 1 / 2 ^ 600"

section \<open>Properties\<close>

subsection \<open>Facts about the example frames\<close>

lemma kp_legsFrame:
  "kp (legsFrame h k) 11 = Some \<lparr>kp_x = 0, kp_y = h, kp_score = 0.9\<rparr>"
  "kp (legsFrame h k) 12 = Some \<lparr>kp_x = 0, kp_y = h, kp_score = 0.9\<rparr>"
  "kp (legsFrame h k) 13 = Some \<lparr>kp_x = 0, kp_y = k, kp_score = 0.9\<rparr>"
  "kp (legsFrame h k) 14 = Some \<lparr>kp_x = 0, kp_y = k, kp_score = 0.9\<rparr>"
  by (simp_all add: kp_def legsFrame_def nth_append)

lemma squatWaiting_legsFrame: "\<not> squatWaiting (legsFrame h k)"
  by (simp add: squatWaiting_def kp_legsFrame)

lemma squatHipKneeDiff_legsFrame: "squatHipKneeDiff (legsFrame h k) = k - h"
  by (simp add: squatHipKneeDiff_def kp_legsFrame)

lemma kp_personFrame:
  "kp (personFrame d s) 0 = Some \<lparr>kp_x = 0, kp_y = 0, kp_score = s\<rparr>"
  "kp (personFrame d s) 5 = Some \<lparr>kp_x = - 50, kp_y = 100 + d, kp_score = s\<rparr>"
  "kp (personFrame d s) 6 = Some \<lparr>kp_x = 50, kp_y = 100, kp_score = s\<rparr>"
  "kp (personFrame d s) 11 = Some \<lparr>kp_x = - 30, kp_y = 300, kp_score = s\<rparr>"
  "kp (personFrame d s) 12 = Some \<lparr>kp_x = 30, kp_y = 300, kp_score = s\<rparr>"
  "kp (personFrame d s) 13 = Some \<lparr>kp_x = - 30, kp_y = 400, kp_score = s\<rparr>"
  "kp (personFrame d s) 14 = Some \<lparr>kp_x = 30, kp_y = 400, kp_score = s\<rparr>"
  "kp (personFrame d s) 15 = Some \<lparr>kp_x = - 20, kp_y = 500, kp_score = s\<rparr>"
  "kp (personFrame d s) 16 = Some \<lparr>kp_x = 20, kp_y = 500, kp_score = s\<rparr>"
  by (simp_all add: kp_def personFrame_def)

lemma kp_bodyFrame:
  "kp (bodyFrame ls rs lh rh lk rk la ra) 0 = Some \<lparr>kp_x = 0, kp_y = 0, kp_score = 0.9\<rparr>"
  "kp (bodyFrame ls rs lh rh lk rk la ra) 5 = Some \<lparr>kp_x = fst ls, kp_y = snd ls, kp_score = 0.9\<rparr>"
  "kp (bodyFrame ls rs lh rh lk rk la ra) 6 = Some \<lparr>kp_x = fst rs, kp_y = snd rs, kp_score = 0.9\<rparr>"
  "kp (bodyFrame ls rs lh rh lk rk la ra) 11 = Some \<lparr>kp_x = fst lh, kp_y = snd lh, kp_score = 0.9\<rparr>"
  "kp (bodyFrame ls rs lh rh lk rk la ra) 12 = Some \<lparr>kp_x = fst rh, kp_y = snd rh, kp_score = 0.9\<rparr>"
  "kp (bodyFrame ls rs lh rh lk rk la ra) 13 = Some \<lparr>kp_x = fst lk, kp_y = snd lk, kp_score = 0.9\<rparr>"
  "kp (bodyFrame ls rs lh rh lk rk la ra) 14 = Some \<lparr>kp_x = fst rk, kp_y = snd rk, kp_score = 0.9\<rparr>"
  "kp (bodyFrame ls rs lh rh lk rk la ra) 15 = Some \<lparr>kp_x = fst la, kp_y = snd la, kp_score = 0.9\<rparr>"
  "kp (bodyFrame ls rs lh rh lk rk la ra) 16 = Some \<lparr>kp_x = fst ra, kp_y = snd ra, kp_score = 0.9\<rparr>"
  by (simp_all add: kp_def bodyFrame_def nth_append)

lemma kp_leaningFrame:
  "kp leaningFrame 0 = Some \<lparr>kp_x = 113, kp_y = 0, kp_score = 0.9\<rparr>"
  "kp leaningFrame 5 = Some \<lparr>kp_x = 0, kp_y = 100, kp_score = 0.9\<rparr>"
  "kp leaningFrame 6 = Some \<lparr>kp_x = 100, kp_y = 100, kp_score = 0.9\<rparr>"
  "kp leaningFrame 11 = Some \<lparr>kp_x = - 34, kp_y = 300, kp_score = 0.9\<rparr>"
  "kp leaningFrame 12 = Some \<lparr>kp_x = 26, kp_y = 300, kp_score = 0.9\<rparr>"
  by (simp_all add: kp_def leaningFrame_def bodyFrame_def nth_append)

lemma kp_standingFrame:
  "kp standingFrame 11 = Some \<lparr>kp_x = - 30, kp_y = 296, kp_score = 0.9\<rparr>"
  "kp standingFrame 12 = Some \<lparr>kp_x = 30, kp_y = 304, kp_score = 0.9\<rparr>"
  "kp standingFrame 13 = Some \<lparr>kp_x = - 30, kp_y = 398, kp_score = 0.9\<rparr>"
  "kp standingFrame 14 = Some \<lparr>kp_x = 30, kp_y = 402, kp_score = 0.9\<rparr>"
  "kp standingFrame 15 = Some \<lparr>kp_x = - 20, kp_y = 497, kp_score = 0.9\<rparr>"
  "kp standingFrame 16 = Some \<lparr>kp_x = 20, kp_y = 503, kp_score = 0.9\<rparr>"
  "kp standingFrame 5 = Some \<lparr>kp_x = - 50, kp_y = 95, kp_score = 0.9\<rparr>"
  "kp standingFrame 6 = Some \<lparr>kp_x = 50, kp_y = 105, kp_score = 0.9\<rparr>"
  by (simp_all add: standingFrame_def kp_bodyFrame)

lemma kp_squattingFrame:
  "kp squattingFrame 11 = Some \<lparr>kp_x = - 10, kp_y = - 1, kp_score = 0.9\<rparr>"
  "kp squattingFrame 12 = Some \<lparr>kp_x = 10, kp_y = 1, kp_score = 0.9\<rparr>"
  "kp squattingFrame 13 = Some \<lparr>kp_x = - 10, kp_y = 19, kp_score = 0.9\<rparr>"
  "kp squattingFrame 14 = Some \<lparr>kp_x = 10, kp_y = 21, kp_score = 0.9\<rparr>"
  "kp squattingFrame 15 = Some \<lparr>kp_x = - 12, kp_y = - 2, kp_score = 0.9\<rparr>"
  "kp squattingFrame 16 = Some \<lparr>kp_x = 12, kp_y = 2, kp_score = 0.9\<rparr>"
  "kp squattingFrame 5 = Some \<lparr>kp_x = - 15, kp_y = - 42, kp_score = 0.9\<rparr>"
  "kp squattingFrame 6 = Some \<lparr>kp_x = 15, kp_y = - 38, kp_score = 0.9\<rparr>"
  by (simp_all add: squattingFrame_def kp_bodyFrame)

subsection \<open>Rounding to the nearest double\<close>

lemma rhe_of_int: "rhe (of_int k) = k"
  by (simp add: rhe_def)

lemma rhe_near: "\<bar>of_int (rhe r) - r\<bar> \<le> 1 / 2"
proof -
  have "of_int \<lfloor>r\<rfloor> \<le> r" "r < of_int \<lfloor>r\<rfloor> + 1" by linarith+
  then show ?thesis
    unfolding rhe_def Let_def by (simp add: abs_le_iff)
qed

lemma expo_eqI:
  assumes "2 powi e \<le> \<bar>v\<bar>" and "\<bar>v\<bar> < 2 powi (e + 1)" and "- 1022 \<le> e"
  shows "expo v = e"
proof -
  have p: "0 < \<bar>v\<bar>" using assms(1) zero_less_power_int [of "2::real" e] by linarith
  have "(2::real) powr (of_int e) = 2 powi e" "(2::real) powr (of_int e + 1) = 2 powi (e + 1)"
    using powr_real_of_int' [of "2::real" e] powr_real_of_int' [of "2::real" "e + 1"] by simp_all
  then have "\<lfloor>log 2 \<bar>v\<bar>\<rfloor> = e"
    using assms(1,2) p by (simp add: floor_log_eq_powr_iff)
  then show ?thesis using assms(3) by (simp add: expo_def)
qed

lemma rnd_eval:
  assumes "2 powi e \<le> \<bar>v\<bar>" and "\<bar>v\<bar> < 2 powi (e + 1)" and "- 1022 \<le> e" and "e \<le> 1022"
  shows "rnd v = Fin (of_int (rhe (v / 2 powi (e - 52))) * 2 powi (e - 52))"
proof -
  have p: "0 < \<bar>v\<bar>" using assms(1) zero_less_power_int [of "2::real" e] by linarith
  have "(2::real) powi (e + 1) \<le> 2 powi 1023"
    using assms(4) by (intro power_int_increasing) simp_all
  also have "\<dots> \<le> 2 ^ 1024 - 2 ^ 970" by simp
  finally have "\<bar>v\<bar> < 2 ^ 1024 - 2 ^ 970" using assms(2) by linarith
  with p expo_eqI [OF assms(1,2,3)] show ?thesis by (simp add: rnd_def)
qed

lemma pow_shift:
  assumes "n \<le> 52"
  shows "(2::real) powi (int n - 52) = 1 / 2 ^ (52 - n)"
proof -
  have e: "int n - 52 = - int (52 - n)" using assms by linarith
  have "(2::real) powi (int n - 52) = 2 powi (- int (52 - n))"
    by (rule arg_cong [OF e])
  also have "\<dots> = inverse (2 powi (int (52 - n)))" by (rule power_int_minus)
  also have "\<dots> = 1 / 2 ^ (52 - n)" by (simp only: power_int_of_nat inverse_eq_divide)
  finally show ?thesis .
qed

lemma rnd_eval_small:
  assumes "2 ^ n \<le> \<bar>v\<bar>" and "\<bar>v\<bar> < 2 ^ Suc n" and "n \<le> 52"
  shows "rnd v = Fin (of_int (rhe (v * 2 ^ (52 - n))) / 2 ^ (52 - n))"
proof -
  have a: "2 powi (int n) \<le> \<bar>v\<bar>" using assms(1) by simp
  have "(2::real) powi (int n + 1) = 2 ^ Suc n"
    by (simp add: power_int_add)
  then have b: "\<bar>v\<bar> < 2 powi (int n + 1)"
    using assms(2) by simp
  have d: "- 1022 \<le> int n" "int n \<le> 1022" using assms(3) by simp_all
  have "rnd v = Fin (of_int (rhe (v / 2 powi (int n - 52))) * 2 powi (int n - 52))"
    by (rule rnd_eval [OF a b d])
  then show ?thesis
    unfolding pow_shift [OF assms(3)] by simp
qed

lemma rnd_of_int:
  assumes "\<bar>m\<bar> < 2 ^ 53"
  shows "rnd (of_int m) = Fin (of_int m)"
proof (cases "m = 0")
  case True
  then show ?thesis by (simp add: rnd_def)
next
  case False
  define k where "k = nat \<bar>m\<bar>"
  define n where "n = nat \<lfloor>log 2 (real k)\<rfloor>"
  have k: "0 < k" "real k = \<bar>of_int m\<bar>" "k < 2 ^ 53"
    using False assms by (simp_all add: k_def nat_less_iff)
  have "0 \<le> log 2 (real k)" using k(1) by simp
  then have "\<lfloor>log 2 (real k)\<rfloor> = int n" by (simp add: n_def)
  then have b: "2 ^ n \<le> k" "k < 2 ^ (n + 1)"
    using floor_log_nat_eq_powr_iff [of 2 k n] k(1) by simp_all
  from b(1) k(3) have "(2::nat) ^ n < 2 ^ 53" by linarith
  then have "n < 53" by (rule power_less_imp_less_exp [rotated]) simp
  then have n: "n \<le> 52" by simp
  have c: "(2::real) ^ n \<le> \<bar>of_int m\<bar>" "\<bar>of_int m :: real\<bar> < 2 ^ Suc n"
    using b k(2) by (metis of_nat_le_iff of_nat_numeral of_nat_power,
      metis Suc_eq_plus1 of_nat_less_iff of_nat_numeral of_nat_power)
  have "real_of_int m * 2 ^ (52 - n) = of_int (m * 2 ^ (52 - n))" by simp
  then have "rhe (real_of_int m * 2 ^ (52 - n)) = m * 2 ^ (52 - n)"
    by (simp only: rhe_of_int)
  then show ?thesis
    by (simp add: rnd_eval_small [OF c n])
qed

lemma rnd_numeral [simp]:
  "numeral w < (2::int) ^ 53 \<Longrightarrow> rnd (numeral w) = Fin (numeral w)"
  "numeral w < (2::int) ^ 53 \<Longrightarrow> rnd (- numeral w) = Fin (- numeral w)"
  using rnd_of_int [of "numeral w"] rnd_of_int [of "- numeral w"] by simp_all

lemma rnd_zero_one [simp]: "rnd 0 = Fin 0" "rnd 1 = Fin 1" "rnd (- 1) = Fin (- 1)"
  using rnd_of_int [of 0] rnd_of_int [of 1] rnd_of_int [of "- 1"] by simp_all

lemma rnd_fractions [simp]:
  "rnd (1 / 2) = Fin (1 / 2)"
  "rnd (3 / 10) = Fin (5404319552844595 / 2 ^ 54)"
  "rnd (2 / 5) = Fin (3602879701896397 / 2 ^ 53)"
proof -
  show "rnd (1 / 2) = Fin (1 / 2)"
    by (subst rnd_eval [where e = "- 1"]) (simp_all add: rhe_def)
  show "rnd (3 / 10) = Fin (5404319552844595 / 2 ^ 54)"
    by (subst rnd_eval [where e = "- 2"]) (simp_all add: rhe_def)
  show "rnd (2 / 5) = Fin (3602879701896397 / 2 ^ 53)"
    by (subst rnd_eval [where e = "- 2"]) (simp_all add: rhe_def)
qed

lemma rnd_literals:
  "rnd 0.5 = Fin (1 / 2)"
  "rnd 0.3 = Fin (5404319552844595 / 2 ^ 54)"
  "rnd 0.4 = Fin (3602879701896397 / 2 ^ 53)"
  by simp_all

lemma degreesPerRadian: "fl_div (Fin 180) (Fin Math_PI) = Fin (1007958012753983 / 2 ^ 44)"
  unfolding Math_PI_def
  by (simp, subst rnd_eval_small [where n = 5]) (simp_all add: rhe_def)

lemma rhe_eqI:
  assumes "of_int k - 1 / 2 < r" and "r < of_int k + 1 / 2"
  shows "rhe r = k"
proof -
  have "\<bar>real_of_int (rhe r) - of_int k\<bar> < 1"
    using rhe_near [of r] assms by linarith
  then have "\<bar>rhe r - k\<bar> < 1" by linarith
  then show ?thesis by simp
qed

lemma rhe_mono:
  assumes "r \<le> s"
  shows "rhe r \<le> rhe s"
proof (cases "\<lfloor>r\<rfloor> = \<lfloor>s\<rfloor>")
  case True
  with assms show ?thesis
    unfolding rhe_def Let_def by auto
next
  case False
  with assms have "\<lfloor>r\<rfloor> < \<lfloor>s\<rfloor>" using floor_mono [OF assms] by linarith
  moreover have "rhe r \<le> \<lfloor>r\<rfloor> + 1" "\<lfloor>s\<rfloor> \<le> rhe s"
    unfolding rhe_def Let_def by auto
  ultimately show ?thesis by linarith
qed

lemma rnd_bounded:
  assumes "0 < x" and "x < 2 ^ m" and "m \<le> 1000"
  shows "\<exists>t. rnd x = Fin t \<and> 0 \<le> t \<and> t \<le> 2 ^ m"
proof -
  define e where "e = expo x"
  define u :: real where "u = 2 powi (e - 52)"
  have u: "0 < u" by (simp add: u_def)
  have "(2::real) ^ m \<le> 2 ^ 1000" using assms(3) by (intro power_increasing) simp_all
  also have "\<dots> < 2 ^ 1024 - 2 ^ 970" by simp
  finally have big: "\<bar>x\<bar> < 2 ^ 1024 - 2 ^ 970" using assms(1,2) by simp
  have r: "rnd x = Fin (of_int (rhe (x / u)) * u)"
    using assms(1) big by (simp add: rnd_def u_def e_def)
  have "log 2 x < real m"
    using assms(1,2) by (simp add: log_less_iff powr_realpow)
  then have "\<lfloor>log 2 x\<rfloor> < int m" by linarith
  then have e: "e \<le> int m - 1" using assms(1) by (simp add: e_def expo_def)
  define d where "d = nat (int m - (e - 52))"
  have d: "int d = int m - (e - 52)" using e by (simp add: d_def)
  have "(2::real) ^ m = 2 powi (int d + (e - 52))" using d by simp
  also have "\<dots> = 2 ^ d * u"
    by (simp add: power_int_add u_def)
  finally have m: "(2::real) ^ m = 2 ^ d * u" .
  have "rhe 0 \<le> rhe (x / u)" using assms(1) u by (intro rhe_mono) simp
  then have lo: "0 \<le> rhe (x / u)" using rhe_of_int [of 0] by simp
  have "x / u \<le> 2 ^ d" using assms(2) u m by (simp add: field_simps)
  then have "rhe (x / u) \<le> rhe (of_int (2 ^ d))" by (intro rhe_mono) simp
  then have "rhe (x / u) \<le> 2 ^ d" by (simp only: rhe_of_int)
  then have "real_of_int (rhe (x / u)) \<le> 2 ^ d"
    by (metis of_int_le_iff of_int_numeral of_int_power)
  then have "real_of_int (rhe (x / u)) * u \<le> 2 ^ d * u"
    using u by (intro mult_right_mono) simp_all
  then have hi: "real_of_int (rhe (x / u)) * u \<le> 2 ^ m" using m by simp
  from r lo hi u show ?thesis by simp
qed

lemma expo_subnormal:
  assumes "v \<noteq> 0" and "\<bar>v\<bar> < 2 powi (- 1022)"
  shows "expo v = - 1022"
proof -
  have "(2::real) powr (of_int (- 1022)) = 2 powi (- 1022)"
    using powr_real_of_int' [of "2::real" "- 1022"] by simp
  then have "\<bar>v\<bar> < 2 powr (- 1022)" using assms(2) by simp
  then have "log 2 \<bar>v\<bar> < - 1022"
    using assms(1) by (simp add: log_less_iff)
  then have "\<lfloor>log 2 \<bar>v\<bar>\<rfloor> \<le> - 1022" by linarith
  then show ?thesis by (simp add: expo_def)
qed

subsection \<open>The double nearest to \<open>\<pi>\<close>\<close>

text \<open>
  Machin's formula and the alternating series of the arc tangent place \<open>\<pi>\<close> closely enough
  to round it: \<^verbatim>\<open>Math.PI\<close> is the double nearest to \<open>\<pi>\<close>. The correctly rounded arc
  cosine therefore lies between 0 and \<^verbatim>\<open>Math.PI\<close>, and its product with \<^verbatim>\<open>180 / Math.PI\<close>
  between 0 and 180.
\<close>

lemma arctan_bounds:
  assumes "0 < x" and "x \<le> 1"
  shows "(\<Sum>i<2 * n. (- 1) ^ i * (1 / real (i * 2 + 1) * x ^ (i * 2 + 1))) \<le> arctan x"
    and "arctan x \<le> (\<Sum>i<2 * n + 1. (- 1) ^ i * (1 / real (i * 2 + 1) * x ^ (i * 2 + 1)))"
proof -
  have a: "\<bar>x\<bar> \<le> 1" using assms by simp
  have p: "0 < 1 / real (0 * 2 + 1) * x ^ (0 * 2 + 1)" using assms by simp
  from summable_Leibniz(2) [OF zeroseq_arctan_series [OF a] monoseq_arctan_series [OF a]] p
  have "arctan x \<in> {(\<Sum>i<2 * n. (- 1) ^ i * (1 / real (i * 2 + 1) * x ^ (i * 2 + 1))) ..
      (\<Sum>i<2 * n + 1. (- 1) ^ i * (1 / real (i * 2 + 1) * x ^ (i * 2 + 1)))}"
    unfolding arctan_series [OF a] by blast
  then show "(\<Sum>i<2 * n. (- 1) ^ i * (1 / real (i * 2 + 1) * x ^ (i * 2 + 1))) \<le> arctan x"
    and "arctan x \<le> (\<Sum>i<2 * n + 1. (- 1) ^ i * (1 / real (i * 2 + 1) * x ^ (i * 2 + 1)))"
    by simp_all
qed

lemma pi_upper: "pi * 2 ^ 51 < 7074237752028440 + 2 / 5"
proof -
  have a: "arctan (1 / 5) \<le> (\<Sum>i<2 * 6 + 1. (- 1) ^ i * (1 / real (i * 2 + 1) * (1 / 5) ^ (i * 2 + 1)))"
    by (rule arctan_bounds(2)) simp_all
  have b: "(\<Sum>i<2 * 2. (- 1) ^ i * (1 / real (i * 2 + 1) * (1 / 239) ^ (i * 2 + 1))) \<le> arctan (1 / 239)"
    by (rule arctan_bounds(1)) simp_all
  have "pi = 16 * arctan (1 / 5) - 4 * arctan (1 / 239)"
    using machin by simp
  also have "\<dots> \<le> 16 * (\<Sum>i<2 * 6 + 1. (- 1) ^ i * (1 / real (i * 2 + 1) * (1 / 5) ^ (i * 2 + 1)))
      - 4 * (\<Sum>i<2 * 2. (- 1) ^ i * (1 / real (i * 2 + 1) * (1 / 239) ^ (i * 2 + 1)))"
    using a b by linarith
  also have "\<dots> < (7074237752028440 + 2 / 5) / 2 ^ 51"
    by (simp add: eval_nat_numeral)
  finally show ?thesis by (simp add: field_simps)
qed

lemma pi_lower: "7074237752028440 + 1 / 5 < pi * 2 ^ 51"
proof -
  have a: "(\<Sum>i<2 * 6. (- 1) ^ i * (1 / real (i * 2 + 1) * (1 / 5) ^ (i * 2 + 1))) \<le> arctan (1 / 5)"
    by (rule arctan_bounds(1)) simp_all
  have b: "arctan (1 / 239) \<le> (\<Sum>i<2 * 2 + 1. (- 1) ^ i * (1 / real (i * 2 + 1) * (1 / 239) ^ (i * 2 + 1)))"
    by (rule arctan_bounds(2)) simp_all
  have "(7074237752028440 + 1 / 5) / 2 ^ 51 < 16 * (\<Sum>i<2 * 6. (- 1) ^ i * (1 / real (i * 2 + 1) * (1 / 5) ^ (i * 2 + 1)))
      - 4 * (\<Sum>i<2 * 2 + 1. (- 1) ^ i * (1 / real (i * 2 + 1) * (1 / 239) ^ (i * 2 + 1)))"
    by (simp add: eval_nat_numeral)
  also have "\<dots> \<le> 16 * arctan (1 / 5) - 4 * arctan (1 / 239)"
    using a b by linarith
  also have "\<dots> = pi"
    using machin by simp
  finally show ?thesis by (simp add: field_simps)
qed

lemma rhe_pi: "rhe (pi * 2 ^ 51) = 7074237752028440"
  by (rule rhe_eqI) (use pi_upper pi_lower in simp_all)

lemma rnd_pi: "rnd pi = Fin Math_PI"
proof -
  have p: "2 ^ 1 \<le> \<bar>pi\<bar>" "\<bar>pi\<bar> < 2 ^ Suc 1"
    using pi_ge_two pi_less_4 by simp_all
  show ?thesis
    using rnd_eval_small [OF p] rhe_pi by (simp add: Math_PI_def)
qed

lemma rnd_half_pi: "rnd (pi / 2) = Fin (Math_PI / 2)"
proof -
  have p: "2 ^ 0 \<le> \<bar>pi / 2\<bar>" "\<bar>pi / 2\<bar> < 2 ^ Suc 0"
    using pi_ge_two pi_less_4 by simp_all
  have e: "pi / 2 * 2 ^ (52 - 0) = pi * 2 ^ 51" by simp
  have "rnd (pi / 2) = Fin (of_int (rhe (pi / 2 * 2 ^ (52 - 0))) / 2 ^ (52 - 0))"
    by (rule rnd_eval_small [OF p]) simp
  then show ?thesis
    unfolding e rhe_pi by (simp add: Math_PI_def)
qed

lemma degrees_values:
  "fl_mul (Fin Math_PI) (fl_div (Fin 180) (Fin Math_PI)) = Fin 180"
  "fl_mul (Fin (Math_PI / 2)) (fl_div (Fin 180) (Fin Math_PI)) = Fin 90"
proof -
  show "fl_mul (Fin Math_PI) (fl_div (Fin 180) (Fin Math_PI)) = Fin 180"
    unfolding degreesPerRadian unfolding Math_PI_def fl_mul.simps
    by (subst rnd_eval_small [where n = 7]) (simp_all add: rhe_def)
  show "fl_mul (Fin (Math_PI / 2)) (fl_div (Fin 180) (Fin Math_PI)) = Fin 90"
    unfolding degreesPerRadian unfolding Math_PI_def fl_mul.simps
    by (subst rnd_eval_small [where n = 6]) (simp_all add: rhe_def)
qed

lemma rnd_upto_pi:
  assumes "0 \<le> x" and "x \<le> pi"
  shows "\<exists>t. rnd x = Fin t \<and> 0 \<le> t \<and> t \<le> Math_PI"
proof -
  have M: "3 \<le> Math_PI" by (simp add: Math_PI_def)
  consider "x = 0" | "0 < x" "x < 2 ^ 1" | "2 \<le> x" using assms(1) by fastforce
  then show ?thesis
  proof cases
    case 1
    then show ?thesis using M by simp
  next
    case 2
    from rnd_bounded [OF 2] obtain t where "rnd x = Fin t" "0 \<le> t" "t \<le> 2 ^ 1" by auto
    then show ?thesis using M by auto
  next
    case 3
    have p: "2 ^ 1 \<le> \<bar>x\<bar>" "\<bar>x\<bar> < 2 ^ Suc 1"
      using 3 assms(2) pi_less_4 by simp_all
    define t where "t = real_of_int (rhe (x * 2 ^ 51)) / 2 ^ 51"
    have r: "rnd x = Fin t"
      using rnd_eval_small [OF p] by (simp add: t_def)
    have "rhe 0 \<le> rhe (x * 2 ^ 51)" using 3 by (intro rhe_mono) simp
    then have "0 \<le> rhe (x * 2 ^ 51)" using rhe_of_int [of 0] by simp
    then have lo: "0 \<le> t" by (simp add: t_def)
    have "rhe (x * 2 ^ 51) \<le> rhe (pi * 2 ^ 51)" using assms(2) by (intro rhe_mono) simp
    then have "rhe (x * 2 ^ 51) \<le> 7074237752028440" by (simp only: rhe_pi)
    then have "real_of_int (rhe (x * 2 ^ 51)) \<le> 7074237752028440" by linarith
    then have hi: "t \<le> Math_PI"
      by (simp add: t_def Math_PI_def field_simps)
    from r lo hi show ?thesis by blast
  qed
qed

lemma degrees_bounded:
  assumes "0 \<le> t" and "t \<le> Math_PI"
  shows "\<exists>r. fl_mul (Fin t) (fl_div (Fin 180) (Fin Math_PI)) = Fin r \<and> 0 \<le> r \<and> r \<le> 180"
proof -
  define x where "x = t * (1007958012753983 / 2 ^ 44)"
  have f: "fl_mul (Fin t) (fl_div (Fin 180) (Fin Math_PI)) = rnd x"
    by (simp only: degreesPerRadian fl_mul.simps x_def)
  have x0: "0 \<le> x" using assms(1) by (simp add: x_def)
  have "x \<le> Math_PI * (1007958012753983 / 2 ^ 44)"
    unfolding x_def using assms(2) by (intro mult_right_mono) simp_all
  then have xu: "x * 2 ^ 45 \<le> 180 * 2 ^ 45" "x < 2 ^ Suc 7"
    by (simp_all add: Math_PI_def)
  consider "x = 0" | "0 < x" "x < 2 ^ 7" | "2 ^ 7 \<le> x" using x0 by fastforce
  then show ?thesis
  proof cases
    case 1
    then show ?thesis unfolding f by simp
  next
    case 2
    from rnd_bounded [OF 2] obtain r where "rnd x = Fin r" "0 \<le> r" "r \<le> 2 ^ 7" by auto
    then show ?thesis unfolding f by auto
  next
    case 3
    have p: "2 ^ 7 \<le> \<bar>x\<bar>" "\<bar>x\<bar> < 2 ^ Suc 7"
      using 3 xu(2) by simp_all
    define r where "r = real_of_int (rhe (x * 2 ^ 45)) / 2 ^ 45"
    have r: "rnd x = Fin r"
      using rnd_eval_small [OF p] by (simp add: r_def)
    have "rhe 0 \<le> rhe (x * 2 ^ 45)" using 3 by (intro rhe_mono) simp
    then have "0 \<le> rhe (x * 2 ^ 45)" using rhe_of_int [of 0] by simp
    then have lo: "0 \<le> r" by (simp add: r_def)
    have "rhe (x * 2 ^ 45) \<le> rhe (of_int (180 * 2 ^ 45))" using xu(1) by (intro rhe_mono) simp
    then have "rhe (x * 2 ^ 45) \<le> 180 * 2 ^ 45" by (simp only: rhe_of_int)
    then have "real_of_int (rhe (x * 2 ^ 45)) \<le> real_of_int (180 * 2 ^ 45)"
      by (simp only: of_int_le_iff)
    then have hi: "r \<le> 180"
      by (simp add: r_def field_simps)
    from r lo hi show ?thesis unfolding f by blast
  qed
qed

subsection \<open>The repetition counter\<close>

text \<open>
  C1 (debounce). The claim: the confirmed squat state changes to a new raw state only
  after \<open>minStateFrames\<close> (3) consecutive frames whose raw state is the new one. The code
  breaks it: \<open>stateFrameCount\<close> is also incremented by every frame whose raw state
  equals the confirmed state (line 702) and is reset only on a transition, so once three
  such frames have passed the test of line 673 holds nothing back. Run from the initial state, two
  standing frames (hip to knee difference 100, raw state \<open>up\<close>) leave the state \<open>up\<close>, and
  after three standing frames a single squatting frame (difference 0, raw state \<open>down\<close>)
  already changes the confirmed state to \<open>down\<close>.
\<close>

theorem countSquats_single_frame_flips_state:
  "squatState (countSquatsRun [(0, 0, legsFrame 0 100), (0, 0, legsFrame 0 100)]
      initialState) = ''up'' \<and>
   squatState (countSquatsRun
      [(0, 0, legsFrame 0 100), (0, 0, legsFrame 0 100), (0, 0, legsFrame 0 100),
       (0, 0, legsFrame 0 0)] initialState) = ''down''"
  by (simp add: countSquats_def squatWaiting_legsFrame squatNewState_def
      squatHipKneeDiff_legsFrame initialState_def squatStateIndicator_def
      updateSquatIndicator_def minStateFrames_def Let_def)



text \<open>
  C5 (unusable frame). When one of the hip and knee keypoints (indices 11 to 14) is
  absent or has a score below 0.4, \<open>countSquats\<close> writes the waiting message to the squat
  indicator and changes nothing else: \<open>squatState\<close>, \<open>stateFrameCount\<close>, \<open>exerciseCount\<close>
  and \<open>lastSquatTime\<close> are as before.
\<close>

theorem countSquats_unusable_frame_waits:
  assumes "i \<in> {11, 12, 13, 14}"
    and "case kp ks i of None \<Rightarrow> True | Some k \<Rightarrow> kp_score k < 0.4"
  shows "countSquats now1 now2 ks st =
     st\<lparr>squatIndicator := (''Waiting for clear pose...'', ''squat-indicator squat-transition'')\<rparr>"
proof -
  have "squatWaiting ks"
    using assms by (auto simp add: squatWaiting_def split: option.splits)
  then show ?thesis
    by (simp add: countSquats_def updateSquatIndicator_def)
qed

theorem countSquats_unusable_frame_waits_witness:
  "countSquats 5000 5000 lowHipFrame (downConfirmed 0) =
     (downConfirmed 0)\<lparr>squatIndicator :=
       (''Waiting for clear pose...'', ''squat-indicator squat-transition'')\<rparr> \<and>
   countSquats 5000 5000 (take 13 (legsFrame 0 100)) initialState =
     initialState\<lparr>squatIndicator :=
       (''Waiting for clear pose...'', ''squat-indicator squat-transition'')\<rparr>"
proof -
  have a: "(11::nat) \<in> {11, 12, 13, 14}" and b: "(13::nat) \<in> {11, 12, 13, 14}" by simp_all
  have c: "case kp lowHipFrame 11 of None \<Rightarrow> True | Some k \<Rightarrow> kp_score k < 0.4"
    by (simp add: kp_def lowHipFrame_def legsFrame_def)
  have d: "case kp (take 13 (legsFrame 0 100)) 13 of None \<Rightarrow> True | Some k \<Rightarrow> kp_score k < 0.4"
    by (simp add: kp_def legsFrame_def)
  show ?thesis
    using countSquats_unusable_frame_waits [OF a c] countSquats_unusable_frame_waits [OF b d]
    by simp
qed

subsection \<open>Starting a test or a session that is already running\<close>

text \<open>
  C8. Starting a balance test while one is active, and starting a PT session while one
  is active, only shows the message: apart from the recorded alert the state is the one
  before the call, so the start time of the running test and the running session object
  are unchanged.
\<close>

theorem start_while_active_rejected:
  "(balanceTestActive st \<longrightarrow>
      startBalanceTest now st =
        st\<lparr>alerts := alerts st @ [''Balance test already in progress'']\<rparr> \<and>
      balanceTestStartTime (startBalanceTest now st) = balanceTestStartTime st) \<and>
   (exerciseSession st \<noteq> None \<longrightarrow>
      startPTSession now st =
        st\<lparr>alerts := alerts st @ [''PT session already in progress'']\<rparr> \<and>
      exerciseSession (startPTSession now st) = exerciseSession st)"
  by (simp add: startBalanceTest_def startPTSession_def alert_def)

theorem start_while_active_rejected_witness:
  "balanceTestActive busyState \<and> exerciseSession busyState \<noteq> None \<and>
   balanceTestStartTime (startBalanceTest 7000 busyState) = Some 1000 \<and>
   startBalanceTest 7000 busyState =
     busyState\<lparr>alerts := [''Balance test already in progress'']\<rparr> \<and>
   startPTSession 7000 busyState =
     busyState\<lparr>alerts := [''PT session already in progress'']\<rparr> \<and>
   exerciseSession (startPTSession 7000 busyState) =
     Some \<lparr>ses_startTime = 2000, ses_exercises = 0, ses_accuracy = 0, ses_notes = []\<rparr>"
proof -
  have a: "balanceTestActive busyState" and b: "exerciseSession busyState \<noteq> None"
    and c: "alerts busyState = []" and d: "balanceTestStartTime busyState = Some 1000"
    and e: "exerciseSession busyState =
      Some \<lparr>ses_startTime = 2000, ses_exercises = 0, ses_accuracy = 0, ses_notes = []\<rparr>"
    by (simp_all add: busyState_def startPTSession_def startBalanceTest_def initialState_def
        toggleExerciseMode_def switchMedicalTab_def Let_def)
  show ?thesis
    using start_while_active_rejected [of busyState 7000] a b c d e by simp
qed

subsection \<open>The knee angle\<close>

lemma fl_add_commute: "fl_add a b = fl_add b a"
  by (cases a; cases b) (simp_all add: add.commute)

lemma fl_mul_commute: "fl_mul a b = fl_mul b a"
  by (cases a; cases b) (simp_all add: mult.commute)

lemma kneeCosine_swap: "kneeCosine P p v q = kneeCosine P q v p"
  unfolding kneeCosine_def Let_def
  by (simp only: fl_mul_commute [of "fl_sub (jx p) (jx v)"]
      fl_mul_commute [of "fl_sub (jy p) (jy v)"]
      fl_mul_commute [of "armMagnitude P p v"])

lemma calculateKneeAngle_swap:
  "calculateKneeAngle P p v q = calculateKneeAngle P q v p"
  unfolding calculateKneeAngle_def Let_def
  by (simp only: kneeCosine_swap [of P p v q] disj_commute)

lemma armMagnitude_zero:
  "armMagnitude P \<lparr>jx = Fin a, jy = Fin b\<rparr> \<lparr>jx = Fin a, jy = Fin b\<rparr> = Fin 0"
  by (simp add: armMagnitude_def Let_def fl_sub_def)

lemma clamp_cases:
  "js_max (Fin (- 1)) (js_min (Fin 1) c) =
     (case c of NaN \<Rightarrow> NaN | PosInf \<Rightarrow> Fin 1 | NegInf \<Rightarrow> Fin (- 1)
      | Fin r \<Rightarrow> Fin (max (- 1) (min 1 r)))"
  by (cases c) simp_all

lemma sqrt_values: "sqrt 10000 = 100" "sqrt 400 = 20" "sqrt 9 = 3" "sqrt 16 = 4"
  by (rule real_sqrt_unique; simp)+

lemma armMagnitude_straight:
  "armMagnitude correctlyRounded \<lparr>jx = Fin 0, jy = Fin 300\<rparr> \<lparr>jx = Fin 0, jy = Fin 400\<rparr> = Fin 100"
  "armMagnitude correctlyRounded \<lparr>jx = Fin 0, jy = Fin 500\<rparr> \<lparr>jx = Fin 0, jy = Fin 400\<rparr> = Fin 100"
  by (simp_all add: armMagnitude_def Let_def fl_sub_def correctlyRounded_def sqrt_values)

lemma kneeCosine_straight:
  "kneeCosine correctlyRounded \<lparr>jx = Fin 0, jy = Fin 300\<rparr> \<lparr>jx = Fin 0, jy = Fin 400\<rparr>
     \<lparr>jx = Fin 0, jy = Fin 500\<rparr> = Fin (- 1)"
  unfolding kneeCosine_def Let_def armMagnitude_straight
  by (simp add: fl_sub_def)

lemma armMagnitude_folded:
  "armMagnitude correctlyRounded \<lparr>jx = Fin 0, jy = Fin 0\<rparr> \<lparr>jx = Fin 0, jy = Fin 20\<rparr> = Fin 20"
  by (simp_all add: armMagnitude_def Let_def fl_sub_def correctlyRounded_def sqrt_values)

lemma kneeCosine_folded:
  "kneeCosine correctlyRounded \<lparr>jx = Fin 0, jy = Fin 0\<rparr> \<lparr>jx = Fin 0, jy = Fin 20\<rparr>
     \<lparr>jx = Fin 0, jy = Fin 0\<rparr> = Fin 1"
  unfolding kneeCosine_def Let_def armMagnitude_folded
  by (simp add: fl_sub_def)

lemma calculateKneeAngle_folded:
  "calculateKneeAngle correctlyRounded \<lparr>jx = Fin 0, jy = Fin 0\<rparr> \<lparr>jx = Fin 0, jy = Fin 20\<rparr>
     \<lparr>jx = Fin 0, jy = Fin 0\<rparr> = Fin 0"
  unfolding calculateKneeAngle_def Let_def armMagnitude_folded kneeCosine_folded
    degreesPerRadian
  by simp

lemma calculateKneeAngle_straight:
  "calculateKneeAngle correctlyRounded \<lparr>jx = Fin 0, jy = Fin 300\<rparr> \<lparr>jx = Fin 0, jy = Fin 400\<rparr>
     \<lparr>jx = Fin 0, jy = Fin 500\<rparr> = fl_mul (rnd pi) (fl_div (Fin 180) (Fin Math_PI))"
  unfolding calculateKneeAngle_def Let_def armMagnitude_straight kneeCosine_straight
  by (simp add: correctlyRounded_def)

lemma calculateKneeAngle_straight_180:
  "calculateKneeAngle correctlyRounded \<lparr>jx = Fin 0, jy = Fin 300\<rparr> \<lparr>jx = Fin 0, jy = Fin 400\<rparr>
     \<lparr>jx = Fin 0, jy = Fin 500\<rparr> = Fin 180"
  unfolding calculateKneeAngle_straight rnd_pi by (rule degrees_values(1))

lemma armMagnitude_right:
  "armMagnitude correctlyRounded \<lparr>jx = Fin 3, jy = Fin 0\<rparr> \<lparr>jx = Fin 0, jy = Fin 0\<rparr> = Fin 3"
  "armMagnitude correctlyRounded \<lparr>jx = Fin 0, jy = Fin 4\<rparr> \<lparr>jx = Fin 0, jy = Fin 0\<rparr> = Fin 4"
  by (simp_all add: armMagnitude_def Let_def fl_sub_def correctlyRounded_def sqrt_values)

lemma kneeCosine_right:
  "kneeCosine correctlyRounded \<lparr>jx = Fin 3, jy = Fin 0\<rparr> \<lparr>jx = Fin 0, jy = Fin 0\<rparr>
     \<lparr>jx = Fin 0, jy = Fin 4\<rparr> = Fin 0"
  unfolding kneeCosine_def Let_def armMagnitude_right
  by (simp add: fl_sub_def)

lemma calculateKneeAngle_right:
  "calculateKneeAngle correctlyRounded \<lparr>jx = Fin 3, jy = Fin 0\<rparr> \<lparr>jx = Fin 0, jy = Fin 0\<rparr>
     \<lparr>jx = Fin 0, jy = Fin 4\<rparr> = Fin 90"
proof -
  have a: "Math_acos correctlyRounded (js_max (Fin (- 1)) (js_min (Fin 1) (Fin 0))) = Fin (Math_PI / 2)"
    by (simp add: correctlyRounded_def arccos_0 rnd_half_pi)
  show ?thesis
    unfolding calculateKneeAngle_def Let_def armMagnitude_right kneeCosine_right a
    by (simp only: degrees_values jsnum.inject) simp
qed

lemma calculateKneeAngle_degrees:
  assumes "kneeCosine correctlyRounded p v q \<noteq> NaN"
  shows "\<exists>r. calculateKneeAngle correctlyRounded p v q = Fin r \<and> 0 \<le> r \<and> r \<le> 180"
proof (cases "armMagnitude correctlyRounded p v = Fin 0 \<or> armMagnitude correctlyRounded q v = Fin 0")
  case True
  then show ?thesis by (auto simp add: calculateKneeAngle_def Let_def)
next
  case False
  obtain c where c: "js_max (Fin (- 1)) (js_min (Fin 1) (kneeCosine correctlyRounded p v q)) = Fin c"
    "- 1 \<le> c" "c \<le> 1"
    using assms unfolding clamp_cases by (cases "kneeCosine correctlyRounded p v q") auto
  have "\<exists>t. Math_acos correctlyRounded (Fin c) = Fin t \<and> 0 \<le> t \<and> t \<le> Math_PI"
  proof (cases "c = 1")
    case True
    then show ?thesis by (simp add: Math_PI_def)
  next
    case False
    have "0 \<le> arccos c" "arccos c \<le> pi"
      using c(2,3) by (simp_all add: arccos_lbound arccos_ubound)
    from rnd_upto_pi [OF this] show ?thesis
      using False c(2,3) by (simp add: correctlyRounded_def)
  qed
  then obtain t where t: "Math_acos correctlyRounded (Fin c) = Fin t" "0 \<le> t" "t \<le> Math_PI"
    by blast
  have "calculateKneeAngle correctlyRounded p v q =
      fl_mul (Fin t) (fl_div (Fin 180) (Fin Math_PI))"
    by (simp only: calculateKneeAngle_def Let_def False if_False c(1) t(1))
  with degrees_bounded [OF t(2,3)] show ?thesis by simp
qed

lemma tiny_pos [simp]: "0 < tiny" "tiny \<noteq> 0"
  by (simp_all add: tiny_def)

lemma rnd_tiny: "rnd tiny = Fin tiny"
proof -
  have t: "tiny = 2 powi (- 600)"
    by (simp add: tiny_def power_int_minus inverse_eq_divide)
  have "rnd tiny = Fin (of_int (rhe (tiny / 2 powi (- 600 - 52))) * 2 powi (- 600 - 52))"
    by (rule rnd_eval) (simp_all add: t)
  also have "tiny / 2 powi (- 600 - 52) = of_int (2 ^ 52)"
    unfolding t by (simp add: power_int_diff)
  also have "real_of_int (rhe (of_int (2 ^ 52))) * 2 powi (- 600 - 52) = tiny"
    unfolding rhe_of_int t by (simp add: power_int_diff)
  finally show ?thesis .
qed

lemma rnd_underflow: "rnd (tiny * tiny) = Fin 0"
proof -
  have t: "tiny * tiny = 2 powi (- 1200)"
    by (simp add: tiny_def power_int_minus inverse_eq_divide flip: power_add)
  have e: "expo (tiny * tiny) = - 1022"
    by (rule expo_subnormal) (simp_all add: t)
  have "tiny * tiny / 2 powi (expo (tiny * tiny) - 52) = 2 powi (- 126)"
    unfolding e unfolding t by (simp add: power_int_diff)
  also have "\<dots> = 1 / 2 ^ 126"
    by (simp add: power_int_minus inverse_eq_divide)
  finally have q: "tiny * tiny / 2 powi (expo (tiny * tiny) - 52) = 1 / 2 ^ 126" .
  have r0: "rhe (tiny * tiny / 2 powi (expo (tiny * tiny) - 52)) = 0"
    unfolding q by (simp add: rhe_def)
  have big: "\<bar>tiny * tiny\<bar> < 2 ^ 1024 - 2 ^ 970"
    by (simp add: tiny_def)
  show ?thesis
    unfolding rnd_def r0 using big by simp
qed

lemma rnd_huge: "rnd huge = Fin huge"
  unfolding huge_def by (subst rnd_eval [where e = 600]) (simp_all add: rhe_def)

lemma rnd_overflow: "rnd (huge * huge) = PosInf"
  by (simp add: rnd_def huge_def)

lemma huge_pos [simp]: "0 < huge" "huge \<noteq> 0"
  by (simp_all add: huge_def)

lemma armMagnitude_huge:
  "armMagnitude correctlyRounded \<lparr>jx = Fin huge, jy = Fin 0\<rparr> \<lparr>jx = Fin 0, jy = Fin 0\<rparr> = PosInf"
  "armMagnitude correctlyRounded \<lparr>jx = Fin huge, jy = Fin huge\<rparr> \<lparr>jx = Fin 0, jy = Fin 0\<rparr>
     = PosInf"
  by (simp_all add: armMagnitude_def Let_def fl_sub_def correctlyRounded_def rnd_huge rnd_overflow)

lemma kneeCosine_huge:
  "kneeCosine correctlyRounded \<lparr>jx = Fin huge, jy = Fin 0\<rparr> \<lparr>jx = Fin 0, jy = Fin 0\<rparr>
     \<lparr>jx = Fin huge, jy = Fin huge\<rparr> = NaN"
  unfolding kneeCosine_def Let_def armMagnitude_huge
  by (simp add: fl_sub_def rnd_huge rnd_overflow)

text \<open>
  C9, as amended. On every platform \<open>calculateKneeAngle P p v q\<close>, the angle at the vertex
  \<open>v\<close> between the arms to \<open>p\<close> and to \<open>q\<close>, gives the same result when \<open>p\<close> and \<open>q\<close> are
  swapped, and it is exactly 0 when an arm has zero length (\<open>p\<close> or \<open>q\<close> is the vertex,
  with finite coordinates). When neither arm is measured as 0 the result is the arc
  cosine of the clamped cosine, times \<open>180 / Math.PI\<close>; the clamped cosine of a cosine
  that is a number lies between \<open>-1\<close> and 1, so \<^verbatim>\<open>Math.acos\<close> is applied to a number of
  its domain or to NaN; and when the cosine is NaN the result is NaN. On the correctly
  rounding platform the result is a number between 0 and 180 whenever the cosine is a
  number. (The examples: a zero arm, a straight leg with 180, a right angle with 90, and
  arms whose squares overflow, with NaN.)
\<close>

theorem calculateKneeAngle_symmetric_zero_clamped:
  "calculateKneeAngle P p v q = calculateKneeAngle P q v p \<and>
   (p = \<lparr>jx = Fin a, jy = Fin b\<rparr> \<and> v = \<lparr>jx = Fin a, jy = Fin b\<rparr> \<longrightarrow>
      calculateKneeAngle P p v q = Fin 0 \<and> calculateKneeAngle P q v p = Fin 0) \<and>
   (armMagnitude P p v \<noteq> Fin 0 \<and> armMagnitude P q v \<noteq> Fin 0 \<longrightarrow>
      calculateKneeAngle P p v q =
        fl_mul (Math_acos P (js_max (Fin (- 1)) (js_min (Fin 1) (kneeCosine P p v q))))
          (fl_div (Fin 180) (Fin Math_PI))) \<and>
   (kneeCosine P p v q \<noteq> NaN \<longrightarrow>
      (\<exists>c. js_max (Fin (- 1)) (js_min (Fin 1) (kneeCosine P p v q)) = Fin c \<and>
           - 1 \<le> c \<and> c \<le> 1)) \<and>
   (armMagnitude P p v \<noteq> Fin 0 \<and> armMagnitude P q v \<noteq> Fin 0 \<and> kneeCosine P p v q = NaN \<longrightarrow>
      calculateKneeAngle P p v q = NaN) \<and>
   (kneeCosine correctlyRounded p v q \<noteq> NaN \<longrightarrow>
      (\<exists>r. calculateKneeAngle correctlyRounded p v q = Fin r \<and> 0 \<le> r \<and> r \<le> 180))"
proof -
  have z: "p = \<lparr>jx = Fin a, jy = Fin b\<rparr> \<and> v = \<lparr>jx = Fin a, jy = Fin b\<rparr> \<longrightarrow>
      calculateKneeAngle P p v q = Fin 0 \<and> calculateKneeAngle P q v p = Fin 0"
    by (simp add: calculateKneeAngle_def Let_def armMagnitude_zero)
  have n: "armMagnitude P p v \<noteq> Fin 0 \<and> armMagnitude P q v \<noteq> Fin 0 \<longrightarrow>
      calculateKneeAngle P p v q =
        fl_mul (Math_acos P (js_max (Fin (- 1)) (js_min (Fin 1) (kneeCosine P p v q))))
          (fl_div (Fin 180) (Fin Math_PI))"
    by (simp add: calculateKneeAngle_def Let_def)
  have c: "kneeCosine P p v q \<noteq> NaN \<longrightarrow>
      (\<exists>c. js_max (Fin (- 1)) (js_min (Fin 1) (kneeCosine P p v q)) = Fin c \<and>
           - 1 \<le> c \<and> c \<le> 1)"
    unfolding clamp_cases by (cases "kneeCosine P p v q") simp_all
  have m: "armMagnitude P p v \<noteq> Fin 0 \<and> armMagnitude P q v \<noteq> Fin 0 \<and>
      kneeCosine P p v q = NaN \<longrightarrow> calculateKneeAngle P p v q = NaN"
    by (simp add: calculateKneeAngle_def Let_def)
  have d: "kneeCosine correctlyRounded p v q \<noteq> NaN \<longrightarrow>
      (\<exists>r. calculateKneeAngle correctlyRounded p v q = Fin r \<and> 0 \<le> r \<and> r \<le> 180)"
    using calculateKneeAngle_degrees [of p v q] by blast
  from calculateKneeAngle_swap [of P p v q] z n c m d show ?thesis by blast
qed

theorem calculateKneeAngle_symmetric_zero_clamped_witness:
  "calculateKneeAngle correctlyRounded \<lparr>jx = Fin 3, jy = Fin 4\<rparr> \<lparr>jx = Fin 3, jy = Fin 4\<rparr>
     \<lparr>jx = Fin 7, jy = Fin 9\<rparr> = Fin 0 \<and>
   calculateKneeAngle correctlyRounded \<lparr>jx = Fin 7, jy = Fin 9\<rparr> \<lparr>jx = Fin 3, jy = Fin 4\<rparr>
     \<lparr>jx = Fin 3, jy = Fin 4\<rparr> = Fin 0 \<and>
   calculateKneeAngle correctlyRounded \<lparr>jx = Fin 0, jy = Fin 300\<rparr> \<lparr>jx = Fin 0, jy = Fin 400\<rparr>
     \<lparr>jx = Fin 0, jy = Fin 500\<rparr> = Fin 180 \<and>
   calculateKneeAngle correctlyRounded \<lparr>jx = Fin 3, jy = Fin 0\<rparr> \<lparr>jx = Fin 0, jy = Fin 0\<rparr>
     \<lparr>jx = Fin 0, jy = Fin 4\<rparr> = Fin 90 \<and>
   calculateKneeAngle correctlyRounded \<lparr>jx = Fin huge, jy = Fin 0\<rparr> \<lparr>jx = Fin 0, jy = Fin 0\<rparr>
     \<lparr>jx = Fin huge, jy = Fin huge\<rparr> = NaN"
proof -
  have a: "Math_acos correctlyRounded (js_max (Fin (- 1)) (js_min (Fin 1) (Fin (- 1))))
      = Fin Math_PI"
    "Math_acos correctlyRounded (js_max (Fin (- 1)) (js_min (Fin 1) (Fin 0)))
      = Fin (Math_PI / 2)"
    by (simp_all add: correctlyRounded_def rnd_pi rnd_half_pi)
  have r: "armMagnitude correctlyRounded \<lparr>jx = Fin 3, jy = Fin 0\<rparr> \<lparr>jx = Fin 0, jy = Fin 0\<rparr>
      \<noteq> Fin 0"
    "armMagnitude correctlyRounded \<lparr>jx = Fin 0, jy = Fin 4\<rparr> \<lparr>jx = Fin 0, jy = Fin 0\<rparr>
      \<noteq> Fin 0"
    by (simp_all add: armMagnitude_right)
  note t4 = calculateKneeAngle_symmetric_zero_clamped
    [of correctlyRounded "\<lparr>jx = Fin 3, jy = Fin 0\<rparr>" "\<lparr>jx = Fin 0, jy = Fin 0\<rparr>"
      "\<lparr>jx = Fin 0, jy = Fin 4\<rparr>" 0 0]
  from t4 r have "calculateKneeAngle correctlyRounded \<lparr>jx = Fin 3, jy = Fin 0\<rparr>
      \<lparr>jx = Fin 0, jy = Fin 0\<rparr> \<lparr>jx = Fin 0, jy = Fin 4\<rparr> =
    fl_mul (Math_acos correctlyRounded (js_max (Fin (- 1)) (js_min (Fin 1)
      (kneeCosine correctlyRounded \<lparr>jx = Fin 3, jy = Fin 0\<rparr> \<lparr>jx = Fin 0, jy = Fin 0\<rparr>
        \<lparr>jx = Fin 0, jy = Fin 4\<rparr>)))) (fl_div (Fin 180) (Fin Math_PI))"
    by blast
  then have w5: "calculateKneeAngle correctlyRounded \<lparr>jx = Fin 3, jy = Fin 0\<rparr>
      \<lparr>jx = Fin 0, jy = Fin 0\<rparr> \<lparr>jx = Fin 0, jy = Fin 4\<rparr> = Fin 90"
    by (simp only: kneeCosine_right a degrees_values)
  have m: "armMagnitude correctlyRounded \<lparr>jx = Fin 0, jy = Fin 300\<rparr> \<lparr>jx = Fin 0, jy = Fin 400\<rparr>
      \<noteq> Fin 0"
    "armMagnitude correctlyRounded \<lparr>jx = Fin 0, jy = Fin 500\<rparr> \<lparr>jx = Fin 0, jy = Fin 400\<rparr>
      \<noteq> Fin 0"
    by (simp_all add: armMagnitude_straight)
  have h: "armMagnitude correctlyRounded \<lparr>jx = Fin huge, jy = Fin 0\<rparr>
      \<lparr>jx = Fin 0, jy = Fin 0\<rparr> \<noteq> Fin 0"
    "armMagnitude correctlyRounded \<lparr>jx = Fin huge, jy = Fin huge\<rparr>
      \<lparr>jx = Fin 0, jy = Fin 0\<rparr> \<noteq> Fin 0"
    by (simp_all add: armMagnitude_huge)
  note t1 = calculateKneeAngle_symmetric_zero_clamped
    [of correctlyRounded "\<lparr>jx = Fin 3, jy = Fin 4\<rparr>" "\<lparr>jx = Fin 3, jy = Fin 4\<rparr>"
      "\<lparr>jx = Fin 7, jy = Fin 9\<rparr>" 3 4]
  note t2 = calculateKneeAngle_symmetric_zero_clamped
    [of correctlyRounded "\<lparr>jx = Fin 0, jy = Fin 300\<rparr>" "\<lparr>jx = Fin 0, jy = Fin 400\<rparr>"
      "\<lparr>jx = Fin 0, jy = Fin 500\<rparr>" 0 0]
  note t3 = calculateKneeAngle_symmetric_zero_clamped
    [of correctlyRounded "\<lparr>jx = Fin huge, jy = Fin 0\<rparr>" "\<lparr>jx = Fin 0, jy = Fin 0\<rparr>"
      "\<lparr>jx = Fin huge, jy = Fin huge\<rparr>" 0 0]
  from t1 have w1: "calculateKneeAngle correctlyRounded \<lparr>jx = Fin 3, jy = Fin 4\<rparr>
      \<lparr>jx = Fin 3, jy = Fin 4\<rparr> \<lparr>jx = Fin 7, jy = Fin 9\<rparr> = Fin 0"
    and w2: "calculateKneeAngle correctlyRounded \<lparr>jx = Fin 7, jy = Fin 9\<rparr>
      \<lparr>jx = Fin 3, jy = Fin 4\<rparr> \<lparr>jx = Fin 3, jy = Fin 4\<rparr> = Fin 0"
    by blast+
  from t2 m have "calculateKneeAngle correctlyRounded \<lparr>jx = Fin 0, jy = Fin 300\<rparr>
      \<lparr>jx = Fin 0, jy = Fin 400\<rparr> \<lparr>jx = Fin 0, jy = Fin 500\<rparr> =
    fl_mul (Math_acos correctlyRounded (js_max (Fin (- 1)) (js_min (Fin 1)
      (kneeCosine correctlyRounded \<lparr>jx = Fin 0, jy = Fin 300\<rparr> \<lparr>jx = Fin 0, jy = Fin 400\<rparr>
        \<lparr>jx = Fin 0, jy = Fin 500\<rparr>)))) (fl_div (Fin 180) (Fin Math_PI))"
    by blast
  then have w3: "calculateKneeAngle correctlyRounded \<lparr>jx = Fin 0, jy = Fin 300\<rparr>
      \<lparr>jx = Fin 0, jy = Fin 400\<rparr> \<lparr>jx = Fin 0, jy = Fin 500\<rparr> = Fin 180"
    by (simp only: kneeCosine_straight a degrees_values)
  from t3 h kneeCosine_huge
  have w4: "calculateKneeAngle correctlyRounded \<lparr>jx = Fin huge, jy = Fin 0\<rparr>
      \<lparr>jx = Fin 0, jy = Fin 0\<rparr> \<lparr>jx = Fin huge, jy = Fin huge\<rparr> = NaN"
    by blast
  from w1 w2 w3 w5 w4 show ?thesis by blast
qed

text \<open>
  C9 as stated promises a defined angle for all inputs. With the vertex at the origin
  and arms to \<open>(2 ^ 600, 0)\<close> and \<open>(2 ^ 600, 2 ^ 600)\<close> the squares overflow: both arms
  are measured as infinite, the cosine is \<open>Infinity / Infinity\<close>, and the result is NaN.
\<close>

theorem calculateKneeAngle_overflow_not_an_angle:
  "armMagnitude correctlyRounded \<lparr>jx = Fin huge, jy = Fin 0\<rparr> \<lparr>jx = Fin 0, jy = Fin 0\<rparr>
     \<noteq> Fin 0 \<and>
   armMagnitude correctlyRounded \<lparr>jx = Fin huge, jy = Fin huge\<rparr>
     \<lparr>jx = Fin 0, jy = Fin 0\<rparr> \<noteq> Fin 0 \<and>
   calculateKneeAngle correctlyRounded \<lparr>jx = Fin huge, jy = Fin 0\<rparr> \<lparr>jx = Fin 0, jy = Fin 0\<rparr>
     \<lparr>jx = Fin huge, jy = Fin huge\<rparr> = NaN"
  unfolding calculateKneeAngle_def Let_def armMagnitude_huge kneeCosine_huge
  by simp

text \<open>
  Underflow. The arms from the origin to \<open>(2 ^ -600, 0)\<close> and to \<open>(0, 2 ^ -600)\<close> are
  perpendicular, but their squares round to 0: both arms are measured as 0, and the
  result is 0.
\<close>

lemma calculateKneeAngle_underflow:
  "calculateKneeAngle correctlyRounded \<lparr>jx = Fin tiny, jy = Fin 0\<rparr> \<lparr>jx = Fin 0, jy = Fin 0\<rparr>
     \<lparr>jx = Fin 0, jy = Fin tiny\<rparr> = Fin 0"
proof -
  have "armMagnitude correctlyRounded \<lparr>jx = Fin tiny, jy = Fin 0\<rparr> \<lparr>jx = Fin 0, jy = Fin 0\<rparr>
      = Fin 0"
    by (simp add: armMagnitude_def Let_def fl_sub_def correctlyRounded_def rnd_tiny rnd_underflow)
  then show ?thesis
    by (simp add: calculateKneeAngle_def Let_def)
qed

subsection \<open>The body-position classifier\<close>

lemma bodyFrame_scores:
  "js_less (rnd 0.4) (Fin (kp_score \<lparr>kp_x = a, kp_y = b, kp_score = 0.9\<rparr>))"
  "js_less (rnd 0.3) (Fin (kp_score \<lparr>kp_x = a, kp_y = b, kp_score = 0.9\<rparr>))"
  by simp_all

lemma low_score_unusable: "s \<le> 0.4 \<Longrightarrow> \<not> js_less (rnd 0.4) (Fin s)"
  by simp

lemma js_less_exclusive:
  "js_less (Fin 160) v \<Longrightarrow> \<not> js_less v (Fin 130)"
  "js_less v (Fin 30) \<Longrightarrow> \<not> js_less (Fin 30) v"
  "js_less v (Fin 30) \<Longrightarrow> \<not> js_less (Fin 80) v"
  by (cases v; simp)+

text \<open>
  C7. For a frame whose hip, knee and shoulder pairs are seen with scores above 0.4 and
  whose ankle pair with scores above 0.3 (the doubles of these literals), on every
  platform: when the hip to knee
  vertical difference exceeds 80 and the knee angle exceeds 160 the classifier returns
  \<open>Standing\<close> with confidence 90, and when the difference is below 30 and the knee angle
  below 90 it returns \<open>Squatting\<close> with confidence 85. The difference is the one the
  code computes from the midpoints of the raw hip and knee coordinates, the knee angle
  the one it computes at the midpoints of hips, knees and ankles. The claim's values,
  a difference of 100 with a knee angle of 170 and a difference of 20 with a knee angle
  of 80, lie in these ranges. The examples are a standing frame with straight legs
  (difference 100, knee angle 180) and a deep squat (difference 20, knee angle 0).
\<close>

theorem determineBodyPosition_standing_squatting:
  assumes "kp ks 11 = Some lh" and "kp ks 12 = Some rh"
    and "kp ks 13 = Some lk" and "kp ks 14 = Some rk"
    and "kp ks 15 = Some la" and "kp ks 16 = Some ra"
    and "kp ks 5 = Some ls" and "kp ks 6 = Some rs"
    and "js_less (rnd 0.4) (Fin (kp_score lh))" and "js_less (rnd 0.4) (Fin (kp_score rh))"
    and "js_less (rnd 0.4) (Fin (kp_score lk))" and "js_less (rnd 0.4) (Fin (kp_score rk))"
    and "js_less (rnd 0.3) (Fin (kp_score la))" and "js_less (rnd 0.3) (Fin (kp_score ra))"
    and "js_less (rnd 0.4) (Fin (kp_score ls))" and "js_less (rnd 0.4) (Fin (kp_score rs))"
    and "avgHip =
      \<lparr>jx = fl_div (fl_add (Fin (kp_x lh)) (Fin (kp_x rh))) (Fin 2),
       jy = fl_div (fl_add (Fin (kp_y lh)) (Fin (kp_y rh))) (Fin 2)\<rparr>"
    and "avgKnee =
      \<lparr>jx = fl_div (fl_add (Fin (kp_x lk)) (Fin (kp_x rk))) (Fin 2),
       jy = fl_div (fl_add (Fin (kp_y lk)) (Fin (kp_y rk))) (Fin 2)\<rparr>"
    and "avgAnkle =
      \<lparr>jx = fl_div (fl_add (Fin (kp_x la)) (Fin (kp_x ra))) (Fin 2),
       jy = fl_div (fl_add (Fin (kp_y la)) (Fin (kp_y ra))) (Fin 2)\<rparr>"
    and "hipKneeVerticalDiff = fl_sub (jy avgKnee) (jy avgHip)"
    and "kneeAngle = calculateKneeAngle P avgHip avgKnee avgAnkle"
  shows "(js_less (Fin 80) hipKneeVerticalDiff \<and> js_less (Fin 160) kneeAngle \<longrightarrow>
            determineBodyPosition P ks = (''Standing'', 90)) \<and>
         (js_less hipKneeVerticalDiff (Fin 30) \<and> js_less kneeAngle (Fin 90) \<longrightarrow>
            determineBodyPosition P ks = (''Squatting'', 85)) \<and>
         (hipKneeVerticalDiff = Fin 100 \<and> kneeAngle = Fin 170 \<longrightarrow>
            determineBodyPosition P ks = (''Standing'', 90)) \<and>
         (hipKneeVerticalDiff = Fin 20 \<and> kneeAngle = Fin 80 \<longrightarrow>
            determineBodyPosition P ks = (''Squatting'', 85))"
proof -
  have d: "determineBodyPosition P ks =
      classifyWithAnkleShoulder P avgHip avgKnee avgAnkle (midpoint ls rs)"
    using assms(1-16) unfolding assms(17,18,19)
    by (simp add: determineBodyPosition_def Let_def midpoint_def)
  have standing: "js_less (Fin 80) hipKneeVerticalDiff \<and> js_less (Fin 160) kneeAngle \<longrightarrow>
      determineBodyPosition P ks = (''Standing'', 90)"
    unfolding d assms(20,21)
    by (auto simp add: classifyWithAnkleShoulder_def Let_def dest: js_less_exclusive)
  have squatting: "js_less hipKneeVerticalDiff (Fin 30) \<and> js_less kneeAngle (Fin 90) \<longrightarrow>
      determineBodyPosition P ks = (''Squatting'', 85)"
    unfolding d assms(20,21)
    by (auto simp add: classifyWithAnkleShoulder_def Let_def dest: js_less_exclusive)
  have "hipKneeVerticalDiff = Fin 100 \<and> kneeAngle = Fin 170 \<longrightarrow>
      js_less (Fin 80) hipKneeVerticalDiff \<and> js_less (Fin 160) kneeAngle"
    "hipKneeVerticalDiff = Fin 20 \<and> kneeAngle = Fin 80 \<longrightarrow>
      js_less hipKneeVerticalDiff (Fin 30) \<and> js_less kneeAngle (Fin 90)"
    by simp_all
  with standing squatting show ?thesis by blast
qed

theorem determineBodyPosition_standing_squatting_witness:
  "determineBodyPosition correctlyRounded standingFrame = (''Standing'', 90) \<and>
   determineBodyPosition correctlyRounded squattingFrame = (''Squatting'', 85)"
proof -
  note sc = bodyFrame_scores(1) bodyFrame_scores(1) bodyFrame_scores(1) bodyFrame_scores(1)
    bodyFrame_scores(2) bodyFrame_scores(2) bodyFrame_scores(1) bodyFrame_scores(1)
  note t1 = determineBodyPosition_standing_squatting
    [where P = correctlyRounded and ks = standingFrame,
      OF kp_standingFrame sc refl refl refl refl refl]
  note t2 = determineBodyPosition_standing_squatting
    [where P = correctlyRounded and ks = squattingFrame,
      OF kp_squattingFrame sc refl refl refl refl refl]
  from t1 have w1: "determineBodyPosition correctlyRounded standingFrame = (''Standing'', 90)"
    by (simp add: fl_sub_def calculateKneeAngle_straight_180)
  from t2 have w2: "determineBodyPosition correctlyRounded squattingFrame = (''Squatting'', 85)"
    by (simp add: fl_sub_def calculateKneeAngle_folded)
  from w1 w2 show ?thesis by blast
qed

subsection \<open>The posture score\<close>

lemma postureGrade_bands:
  "postureGrade s =
     (if js_less s (Fin 45) then ''F'' else if js_less s (Fin 60) then ''D''
      else if js_less s (Fin 75) then ''C'' else if js_less s (Fin 90) then ''B'' else ''A'')"
  by (cases s) (simp_all add: postureGrade_def Let_def)

lemma postureScore_level: "postureScore (Fin 0) (Fin 0) (Fin 0) = Fin 100"
  by (simp add: postureScore_def Let_def fl_sub_def js_round_def)

lemma postureScore_slope_60: "postureScore (Fin 60) (Fin 0) (Fin 0) = Fin 75"
  by (simp add: postureScore_def Let_def fl_sub_def js_round_def)

lemma postureScore_leaning: "postureScore (Fin 0) (Fin 63) (Fin 54) = Fin 59"
proof -
  have a: "rnd (63 * (5404319552844595 / 2 ^ 54)) = Fin (2659938529915699 / 2 ^ 47)"
    by (subst rnd_eval_small [where n = 4]) (simp_all add: rhe_def)
  have b: "rnd (100 - 2659938529915699 / 2 ^ 47) = Fin (2853452576404275 / 2 ^ 45)"
    by (subst rnd_eval_small [where n = 6]) (simp_all add: rhe_def)
  have c: "rnd (54 * (3602879701896397 / 2 ^ 53)) = Fin (3039929748475085 / 2 ^ 47)"
    by (subst rnd_eval_small [where n = 4]) (simp_all add: rhe_def)
  have d: "rnd (2853452576404275 / 2 ^ 45 - 3039929748475085 / 2 ^ 47)
      = Fin (8373880557142015 / 2 ^ 47)"
    by (subst rnd_eval_small [where n = 5]) (simp_all add: rhe_def)
  have s1: "fl_sub (rnd 100) (js_min (fl_mul (Fin 0) (rnd 0.5)) (rnd 25)) = Fin 100"
    by (simp add: fl_sub_def)
  have s2: "fl_sub (Fin 100) (js_min (fl_mul (Fin 63) (rnd 0.3)) (rnd 25))
      = Fin (2853452576404275 / 2 ^ 45)"
    unfolding rnd_literals fl_mul.simps a by (simp add: fl_sub_def b [simplified])
  have s3: "fl_sub (Fin (2853452576404275 / 2 ^ 45)) (js_min (fl_mul (Fin 54) (rnd 0.4)) (rnd 25))
      = Fin (8373880557142015 / 2 ^ 47)"
    unfolding rnd_literals fl_mul.simps c by (simp add: fl_sub_def d [simplified])
  show ?thesis
    unfolding postureScore_def Let_def s1 s2 s3 by (simp add: js_round_def)
qed

lemma postureEntry_fields:
  "pa_shoulderSlope (postureEntry now nose ls rs lh rh) =
     js_abs (fl_sub (Fin (kp_y ls)) (Fin (kp_y rs)))"
  "pa_headDeviation (postureEntry now nose ls rs lh rh) =
     js_abs (fl_sub (Fin (kp_x nose)) (fl_div (fl_add (Fin (kp_x ls)) (Fin (kp_x rs))) (Fin 2)))"
  "pa_spineDeviation (postureEntry now nose ls rs lh rh) =
     js_abs (fl_sub (fl_div (fl_add (Fin (kp_x ls)) (Fin (kp_x rs))) (Fin 2))
       (fl_div (fl_add (Fin (kp_x lh)) (Fin (kp_x rh))) (Fin 2)))"
  "pa_score (postureEntry now nose ls rs lh rh) =
     postureScore (pa_shoulderSlope (postureEntry now nose ls rs lh rh))
       (pa_headDeviation (postureEntry now nose ls rs lh rh))
       (pa_spineDeviation (postureEntry now nose ls rs lh rh))"
  "pa_grade (postureEntry now nose ls rs lh rh) =
     postureGrade (pa_score (postureEntry now nose ls rs lh rh))"
  "pa_timestamp (postureEntry now nose ls rs lh rh) = now"
  by (simp_all add: postureEntry_def Let_def)

text \<open>
  C3, as amended. With nose, shoulders and hips present, \<open>assessPosture\<close> appends one
  entry whose score is \<open>100 - min (shoulderSlope * 0.5) 25 - min (headDeviation * 0.3) 25
  - min (spineDeviation * 0.4) 25\<close> in double arithmetic, rounded and then clamped at 0,
  the three measurements being those stored in the entry. The grade is \<open>F\<close> for a score
  below 45, \<open>D\<close> below 60, \<open>C\<close> below 75, \<open>B\<close> below 90 and \<open>A\<close> otherwise. For measurements
  0, 0, 0 the score is 100 and the grade \<open>A\<close>; for shoulder slope 60 and the other two 0
  the score is 75 and the grade is \<open>B\<close>. (The third example has measurements 0, 63, 54:
  the subtractions give 59.49999999999999, hence the score 59 and the grade \<open>D\<close>.)
\<close>

theorem assessPosture_score_and_grade:
  assumes "kp ks 0 = Some nose" and "kp ks 5 = Some ls" and "kp ks 6 = Some rs"
    and "kp ks 11 = Some lh" and "kp ks 12 = Some rh"
  shows "postureAssessments (assessPosture now ks st) =
           postureAssessments st @ [postureEntry now nose ls rs lh rh] \<and>
         (let e = postureEntry now nose ls rs lh rh in
            pa_shoulderSlope e = js_abs (fl_sub (Fin (kp_y ls)) (Fin (kp_y rs))) \<and>
            pa_headDeviation e =
              js_abs (fl_sub (Fin (kp_x nose))
                (fl_div (fl_add (Fin (kp_x ls)) (Fin (kp_x rs))) (Fin 2))) \<and>
            pa_spineDeviation e =
              js_abs (fl_sub (fl_div (fl_add (Fin (kp_x ls)) (Fin (kp_x rs))) (Fin 2))
                (fl_div (fl_add (Fin (kp_x lh)) (Fin (kp_x rh))) (Fin 2))) \<and>
            pa_score e =
              js_max (Fin 0) (Math_round
                (fl_sub (fl_sub (fl_sub (rnd 100)
                    (js_min (fl_mul (pa_shoulderSlope e) (rnd 0.5)) (rnd 25)))
                  (js_min (fl_mul (pa_headDeviation e) (rnd 0.3)) (rnd 25)))
                (js_min (fl_mul (pa_spineDeviation e) (rnd 0.4)) (rnd 25)))) \<and>
            pa_grade e =
              (if js_less (pa_score e) (Fin 45) then ''F''
               else if js_less (pa_score e) (Fin 60) then ''D''
               else if js_less (pa_score e) (Fin 75) then ''C''
               else if js_less (pa_score e) (Fin 90) then ''B'' else ''A'') \<and>
            (pa_shoulderSlope e = Fin 0 \<and> pa_headDeviation e = Fin 0 \<and>
             pa_spineDeviation e = Fin 0 \<longrightarrow>
               pa_score e = Fin 100 \<and> pa_grade e = ''A'') \<and>
            (pa_shoulderSlope e = Fin 60 \<and> pa_headDeviation e = Fin 0 \<and>
             pa_spineDeviation e = Fin 0 \<longrightarrow>
               pa_score e = Fin 75 \<and> pa_grade e = ''B''))"
proof -
  define e where "e = postureEntry now nose ls rs lh rh"
  note f = postureEntry_fields [of now nose ls rs lh rh, folded e_def]
  have a: "postureAssessments (assessPosture now ks st) = postureAssessments st @ [e]"
    using assms by (simp add: assessPosture_def Let_def e_def)
  have b: "pa_score e =
      js_max (Fin 0) (Math_round
        (fl_sub (fl_sub (fl_sub (rnd 100)
            (js_min (fl_mul (pa_shoulderSlope e) (rnd 0.5)) (rnd 25)))
          (js_min (fl_mul (pa_headDeviation e) (rnd 0.3)) (rnd 25)))
        (js_min (fl_mul (pa_spineDeviation e) (rnd 0.4)) (rnd 25))))"
    by (subst f(4)) (simp only: postureScore_def Let_def)
  have g: "pa_grade e =
      (if js_less (pa_score e) (Fin 45) then ''F''
       else if js_less (pa_score e) (Fin 60) then ''D''
       else if js_less (pa_score e) (Fin 75) then ''C''
       else if js_less (pa_score e) (Fin 90) then ''B'' else ''A'')"
    by (subst f(5)) (rule postureGrade_bands)
  have c: "pa_shoulderSlope e = Fin 0 \<and> pa_headDeviation e = Fin 0 \<and>
      pa_spineDeviation e = Fin 0 \<longrightarrow> pa_score e = Fin 100 \<and> pa_grade e = ''A''"
    by (auto simp add: f(4) g postureScore_level)
  have d: "pa_shoulderSlope e = Fin 60 \<and> pa_headDeviation e = Fin 0 \<and>
      pa_spineDeviation e = Fin 0 \<longrightarrow> pa_score e = Fin 75 \<and> pa_grade e = ''B''"
    by (auto simp add: f(4) g postureScore_slope_60)
  from a b g c d f(1,2,3) show ?thesis
    unfolding Let_def e_def by blast
qed

theorem assessPosture_score_and_grade_witness:
  "postureAssessments (assessPosture 1000 (personFrame 0 0.9) initialState) =
     [\<lparr>pa_timestamp = 1000, pa_score = Fin 100, pa_grade = ''A'', pa_shoulderSlope = Fin 0,
       pa_headDeviation = Fin 0, pa_spineDeviation = Fin 0\<rparr>] \<and>
   postureAssessments (assessPosture 2000 (personFrame 60 0.9) initialState) =
     [\<lparr>pa_timestamp = 2000, pa_score = Fin 75, pa_grade = ''B'', pa_shoulderSlope = Fin 60,
       pa_headDeviation = Fin 0, pa_spineDeviation = Fin 0\<rparr>] \<and>
   postureAssessments (assessPosture 3000 leaningFrame initialState) =
     [\<lparr>pa_timestamp = 3000, pa_score = Fin 59, pa_grade = ''D'', pa_shoulderSlope = Fin 0,
       pa_headDeviation = Fin 63, pa_spineDeviation = Fin 54\<rparr>]"
proof -
  have i: "postureAssessments initialState = []" by (simp add: initialState_def)
  have e1: "postureEntry 1000 \<lparr>kp_x = 0, kp_y = 0, kp_score = 0.9\<rparr>
      \<lparr>kp_x = - 50, kp_y = 100 + 0, kp_score = 0.9\<rparr> \<lparr>kp_x = 50, kp_y = 100, kp_score = 0.9\<rparr>
      \<lparr>kp_x = - 30, kp_y = 300, kp_score = 0.9\<rparr> \<lparr>kp_x = 30, kp_y = 300, kp_score = 0.9\<rparr> =
     \<lparr>pa_timestamp = 1000, pa_score = Fin 100, pa_grade = ''A'', pa_shoulderSlope = Fin 0,
       pa_headDeviation = Fin 0, pa_spineDeviation = Fin 0\<rparr>"
    by (simp add: postureEntry_def Let_def fl_sub_def postureScore_level postureGrade_bands)
  have e2: "postureEntry 2000 \<lparr>kp_x = 0, kp_y = 0, kp_score = 0.9\<rparr>
      \<lparr>kp_x = - 50, kp_y = 100 + 60, kp_score = 0.9\<rparr> \<lparr>kp_x = 50, kp_y = 100, kp_score = 0.9\<rparr>
      \<lparr>kp_x = - 30, kp_y = 300, kp_score = 0.9\<rparr> \<lparr>kp_x = 30, kp_y = 300, kp_score = 0.9\<rparr> =
     \<lparr>pa_timestamp = 2000, pa_score = Fin 75, pa_grade = ''B'', pa_shoulderSlope = Fin 60,
       pa_headDeviation = Fin 0, pa_spineDeviation = Fin 0\<rparr>"
    by (simp add: postureEntry_def Let_def fl_sub_def postureScore_slope_60 postureGrade_bands)
  have e3: "postureEntry 3000 \<lparr>kp_x = 113, kp_y = 0, kp_score = 0.9\<rparr>
      \<lparr>kp_x = 0, kp_y = 100, kp_score = 0.9\<rparr> \<lparr>kp_x = 100, kp_y = 100, kp_score = 0.9\<rparr>
      \<lparr>kp_x = - 34, kp_y = 300, kp_score = 0.9\<rparr> \<lparr>kp_x = 26, kp_y = 300, kp_score = 0.9\<rparr> =
     \<lparr>pa_timestamp = 3000, pa_score = Fin 59, pa_grade = ''D'', pa_shoulderSlope = Fin 0,
       pa_headDeviation = Fin 63, pa_spineDeviation = Fin 54\<rparr>"
    by (simp add: postureEntry_def Let_def fl_sub_def postureScore_leaning postureGrade_bands)
  show ?thesis
    using assessPosture_score_and_grade
        [where now = 1000 and st = initialState, OF kp_personFrame(1,2,3,4,5) [of 0 "0.9"]]
      assessPosture_score_and_grade
        [where now = 2000 and st = initialState, OF kp_personFrame(1,2,3,4,5) [of 60 "0.9"]]
      assessPosture_score_and_grade
        [where now = 3000 and st = initialState, OF kp_leaningFrame]
    by (simp only: i e1 e2 e3 append_Nil)
qed

text \<open>
  C3 as stated asks for grade \<open>C\<close> at shoulder slope 60 with the other deviations 0. At
  such a frame the entry has score 75 and a grade that is not \<open>C\<close>.
\<close>

theorem assessPosture_slope_60_grade_not_C:
  "pa_shoulderSlope (last (postureAssessments (assessPosture 2000 (personFrame 60 0.9) initialState))) = Fin 60 \<and>
   pa_headDeviation (last (postureAssessments (assessPosture 2000 (personFrame 60 0.9) initialState))) = Fin 0 \<and>
   pa_spineDeviation (last (postureAssessments (assessPosture 2000 (personFrame 60 0.9) initialState))) = Fin 0 \<and>
   pa_score (last (postureAssessments (assessPosture 2000 (personFrame 60 0.9) initialState))) = Fin 75 \<and>
   pa_grade (last (postureAssessments (assessPosture 2000 (personFrame 60 0.9) initialState))) \<noteq> ''C''"
  by (simp add: assessPosture_def kp_personFrame postureEntry_def Let_def fl_sub_def
      postureScore_slope_60 postureGrade_bands)

subsection \<open>The fall-risk module\<close>



subsection \<open>Keypoints with a low confidence score\<close>




subsection \<open>The assessment logs\<close>

lemma assessPostureCalls_log:
  "list_all (\<lambda>c. postureKeypointsPresent (snd c)) cs \<Longrightarrow>
   postureAssessments (assessPostureCalls cs st) = postureAssessments st @ map postureEntryOf cs"
  by (induction cs arbitrary: st)
    (simp_all add: assessPosture_def postureKeypointsPresent_def postureEntryOf_def Let_def)

lemma assessFallRiskCalls_log:
  "list_all (\<lambda>c. fallKeypointsPresent (snd c)) cs \<Longrightarrow>
   fallRiskHistory (assessFallRiskCalls cs st) = fallRiskHistory st @ map fallEntryOf cs"
  by (induction cs arbitrary: st)
    (simp_all add: assessFallRisk_def fallKeypointsPresent_def fallEntryOf_def Let_def)

lemma captureReading_shown:
  "medicalMode st = ''scoliosis'' \<Longrightarrow>
   medicalMode (captureReading now st) = ''scoliosis'' \<and>
   readingOf (captureReading now st) = readingOf st \<and>
   scoliosisReadings (captureReading now st) = scoliosisReadings st @ [readingOf st now]"
  by (simp add: captureReading_def readingOf_def fun_eq_iff)

lemma captureReadingCalls_log:
  "medicalMode st = ''scoliosis'' \<Longrightarrow>
   scoliosisReadings (captureReadingCalls nows st) =
     scoliosisReadings st @ map (readingOf st) nows"
proof (induction nows arbitrary: st)
  case Nil
  then show ?case by simp
next
  case (Cons now nows)
  from captureReading_shown [OF Cons.prems, of now]
  show ?case by (simp add: Cons.IH)
qed

lemma perform_logs_prefix:
  "prefix (postureAssessments st) (postureAssessments (perform a st)) \<and>
   prefix (fallRiskHistory st) (fallRiskHistory (perform a st)) \<and>
   prefix (scoliosisReadings st) (scoliosisReadings (perform a st))"
  by (cases a)
    (simp_all add: countSquats_def updateSquatIndicator_def squatStateIndicator_def
      analyzeMedicalPose_def assessPosture_def assessFallRisk_def assessTherapySession_def
      assessScoliosis_def updateBalanceTest_def startBalanceTest_def startPTSession_def
      endPTSession_def startScoliosisScreen_def captureReading_def switchMedicalTab_def
      toggleExerciseMode_def resetCounters_def alert_def Let_def split: option.splits)

lemma runSession_logs_prefix:
  "prefix (postureAssessments st) (postureAssessments (runSession acts st)) \<and>
   prefix (fallRiskHistory st) (fallRiskHistory (runSession acts st)) \<and>
   prefix (scoliosisReadings st) (scoliosisReadings (runSession acts st))"
proof (induction acts arbitrary: st)
  case Nil
  then show ?case by simp
next
  case (Cons a acts)
  from perform_logs_prefix [of st a] Cons.IH [of "perform a st"]
  show ?case by (auto intro: prefix_order.trans)
qed

lemma logsUpTo_later: "logsUpTo t st \<Longrightarrow> t \<le> t' \<Longrightarrow> logsUpTo t' st"
  by (auto simp add: logsUpTo_def sorted_append)

lemma logsUpTo_same_logs:
  "logsUpTo t st \<Longrightarrow> postureAssessments st' = postureAssessments st \<Longrightarrow>
   fallRiskHistory st' = fallRiskHistory st \<Longrightarrow> scoliosisReadings st' = scoliosisReadings st \<Longrightarrow>
   logsUpTo t st'"
  by (simp add: logsUpTo_def)

lemma logsUpTo_assessPosture:
  "logsUpTo t st \<Longrightarrow> t \<le> now \<Longrightarrow> logsUpTo now (assessPosture now ks st)"
  by (auto simp add: logsUpTo_def sorted_append assessPosture_def postureEntry_def Let_def)

lemma logsUpTo_assessFallRisk:
  "logsUpTo t st \<Longrightarrow> t \<le> now \<Longrightarrow> logsUpTo now (assessFallRisk now ks st)"
  by (auto simp add: logsUpTo_def sorted_append assessFallRisk_def fallEntry_def Let_def)

lemma logsUpTo_captureReading:
  "logsUpTo t st \<Longrightarrow> t \<le> now \<Longrightarrow> logsUpTo now (captureReading now st)"
  by (auto simp add: logsUpTo_def sorted_append captureReading_def alert_def)

lemma logsUpTo_analyzeMedicalPose:
  "logsUpTo t st \<Longrightarrow> t \<le> now \<Longrightarrow> logsUpTo now (analyzeMedicalPose now ks st)"
proof -
  assume a: "logsUpTo t st" and b: "t \<le> now"
  have c: "logsUpTo now (assessTherapySession ks st)"
    by (rule logsUpTo_same_logs [OF logsUpTo_later [OF a b]])
      (simp_all add: assessTherapySession_def Let_def split: option.splits)
  have d: "logsUpTo now (assessScoliosis ks st)"
    by (rule logsUpTo_same_logs [OF logsUpTo_later [OF a b]])
      (simp_all add: assessScoliosis_def Let_def)
  show ?thesis
    using logsUpTo_assessPosture [OF a b] logsUpTo_assessFallRisk [OF a b] c d
      logsUpTo_later [OF a b]
    by (simp add: analyzeMedicalPose_def)
qed

lemma logsUpTo_updateBalanceTest:
  "logsUpTo t st \<Longrightarrow> t \<le> now1 \<Longrightarrow> now1 \<le> now2 \<Longrightarrow>
   logsUpTo now2 (updateBalanceTest now1 now2 ks st)"
proof -
  assume a: "logsUpTo t st" and b: "t \<le> now1" and c: "now1 \<le> now2"
  from b c have d: "t \<le> now2" by simp
  have e: "logsUpTo now2 (st\<lparr>balanceTestActive := False\<rparr>)"
    by (rule logsUpTo_same_logs [OF logsUpTo_later [OF a d]]) simp_all
  show ?thesis
    using logsUpTo_assessFallRisk [OF a d] e logsUpTo_later [OF a d]
    by (simp add: updateBalanceTest_def Let_def)
qed

lemma logsUpTo_countSquats:
  "logsUpTo t st \<Longrightarrow> logsUpTo t (countSquats now1 now2 ks st)"
  by (erule logsUpTo_same_logs)
    (simp_all add: countSquats_def updateSquatIndicator_def squatStateIndicator_def Let_def)

lemma logsUpTo_perform:
  assumes "logsUpTo t st" and "sorted (t # clockReadings a)"
  shows "logsUpTo (last (t # clockReadings a)) (perform a st)"
proof (cases a)
  case (CountSquats now1 now2 ks)
  with assms show ?thesis
    by (auto intro: logsUpTo_later [OF logsUpTo_countSquats])
next
  case (AnalyzeMedicalPose now ks)
  with assms show ?thesis by (simp add: logsUpTo_analyzeMedicalPose)
next
  case (UpdateBalanceTest now1 now2 ks)
  with assms show ?thesis by (simp add: logsUpTo_updateBalanceTest)
next
  case (StartBalanceTest now)
  with assms show ?thesis
    by (auto intro!: logsUpTo_same_logs [OF logsUpTo_later [OF assms(1)]]
        simp add: startBalanceTest_def alert_def)
next
  case (StartPTSession now)
  with assms show ?thesis
    by (auto intro!: logsUpTo_same_logs [OF logsUpTo_later [OF assms(1)]]
        simp add: startPTSession_def alert_def toggleExerciseMode_def switchMedicalTab_def Let_def)
next
  case EndPTSession
  with assms show ?thesis
    by (auto intro!: logsUpTo_same_logs [OF assms(1)] simp add: endPTSession_def alert_def)
next
  case StartScoliosisScreen
  with assms show ?thesis
    by (auto intro!: logsUpTo_same_logs [OF assms(1)]
        simp add: startScoliosisScreen_def switchMedicalTab_def)
next
  case (CaptureReading now)
  with assms show ?thesis by (simp add: logsUpTo_captureReading)
next
  case (SwitchMedicalTab mode)
  with assms show ?thesis
    by (auto intro!: logsUpTo_same_logs [OF assms(1)] simp add: switchMedicalTab_def)
next
  case ToggleExerciseMode
  with assms show ?thesis
    by (auto intro!: logsUpTo_same_logs [OF assms(1)] simp add: toggleExerciseMode_def)
next
  case ResetCounters
  with assms show ?thesis
    by (auto intro!: logsUpTo_same_logs [OF assms(1)] simp add: resetCounters_def)
qed

lemma sorted_clock_step:
  "sorted (t # clockReadings a @ rest) \<Longrightarrow>
   sorted (t # clockReadings a) \<and> sorted (last (t # clockReadings a) # rest)"
  by (cases "clockReadings a = []") (auto simp add: sorted_append)

lemma logsUpTo_runSession:
  "logsUpTo t st \<Longrightarrow> sorted (t # concat (map clockReadings acts)) \<Longrightarrow>
   \<exists>t'. logsUpTo t' (runSession acts st)"
proof (induction acts arbitrary: t st)
  case Nil
  then show ?case by auto
next
  case (Cons a acts)
  from Cons.prems(2) have s: "sorted (t # clockReadings a @ concat (map clockReadings acts))"
    by simp
  note c = sorted_clock_step [OF s]
  from logsUpTo_perform [OF Cons.prems(1)] c
  have "logsUpTo (last (t # clockReadings a)) (perform a st)" by blast
  from Cons.IH [OF this] c show ?case by simp
qed

lemma logsUpTo_initialState:
  "logsUpTo t initialState"
  by (simp add: logsUpTo_def initialState_def)

lemma runSession_initial_sorted:
  assumes "sorted (concat (map clockReadings acts))"
  shows "sorted (map pa_timestamp (postureAssessments (runSession acts initialState))) \<and>
     sorted (map fr_timestamp (fallRiskHistory (runSession acts initialState))) \<and>
     sorted (map rd_timestamp (scoliosisReadings (runSession acts initialState)))"
proof (cases "concat (map clockReadings acts)")
  case Nil
  have "sorted ((0::int) # concat (map clockReadings acts))" unfolding Nil by simp
  from logsUpTo_runSession [OF logsUpTo_initialState this]
  show ?thesis by (auto simp add: logsUpTo_def sorted_append)
next
  case (Cons t ts)
  have "sorted (t # concat (map clockReadings acts))"
    using assms unfolding Cons by simp
  from logsUpTo_runSession [OF logsUpTo_initialState this]
  show ?thesis by (auto simp add: logsUpTo_def sorted_append)
qed

text \<open>
  C6, as amended. The three assessment logs are append-only.
  \<^item> Calling \<open>assessPosture\<close> once for each of N inputs that have the keypoints it needs
    appends exactly the N entries of these calls, in call order, each stamped with the
    clock reading of its call; the same holds for \<open>assessFallRisk\<close>.
  \<^item> The scoliosis readings grow by \<open>captureReading\<close>, the user's action, when the mode
    is \<open>scoliosis\<close>: N such calls append exactly N readings in call order. The scoliosis
    module itself, and \<open>analyzeMedicalPose\<close> in any mode, leave the readings as they are.
  \<^item> Whatever sequence of calls a session makes, each log before it is a prefix of the
    log after it: no call removes or reorders an entry.
  \<^item> In a session run from the initial state whose clock readings do not decrease,
    the timestamps of each log do not decrease.
\<close>

theorem assessment_logs_append_only:
  "(list_all (\<lambda>c. postureKeypointsPresent (snd c)) cs \<longrightarrow>
      postureAssessments (assessPostureCalls cs st) =
        postureAssessments st @ map postureEntryOf cs) \<and>
   (list_all (\<lambda>c. fallKeypointsPresent (snd c)) cs \<longrightarrow>
      fallRiskHistory (assessFallRiskCalls cs st) = fallRiskHistory st @ map fallEntryOf cs) \<and>
   (medicalMode st = ''scoliosis'' \<longrightarrow>
      scoliosisReadings (captureReadingCalls nows st) =
        scoliosisReadings st @ map (readingOf st) nows) \<and>
   (list_all (\<lambda>c. postureKeypointsPresent (snd c)) cs \<longrightarrow>
      map pa_timestamp (postureAssessments (assessPostureCalls cs st)) =
        map pa_timestamp (postureAssessments st) @ map fst cs) \<and>
   (list_all (\<lambda>c. fallKeypointsPresent (snd c)) cs \<longrightarrow>
      map fr_timestamp (fallRiskHistory (assessFallRiskCalls cs st)) =
        map fr_timestamp (fallRiskHistory st) @ map fst cs) \<and>
   scoliosisReadings (assessScoliosis ks st) = scoliosisReadings st \<and>
   scoliosisReadings (analyzeMedicalPose now ks st) = scoliosisReadings st \<and>
   prefix (postureAssessments st) (postureAssessments (runSession acts st)) \<and>
   prefix (fallRiskHistory st) (fallRiskHistory (runSession acts st)) \<and>
   prefix (scoliosisReadings st) (scoliosisReadings (runSession acts st)) \<and>
   (sorted (concat (map clockReadings acts)) \<longrightarrow>
      sorted (map pa_timestamp (postureAssessments (runSession acts initialState))) \<and>
      sorted (map fr_timestamp (fallRiskHistory (runSession acts initialState))) \<and>
      sorted (map rd_timestamp (scoliosisReadings (runSession acts initialState))))"
proof -
  have t: "pa_timestamp (postureEntryOf c) = fst c" "fr_timestamp (fallEntryOf c) = fst c" for c
    by (simp_all add: postureEntryOf_def postureEntry_def fallEntryOf_def fallEntry_def Let_def)
  have p: "list_all (\<lambda>c. postureKeypointsPresent (snd c)) cs \<longrightarrow>
      map pa_timestamp (postureAssessments (assessPostureCalls cs st)) =
        map pa_timestamp (postureAssessments st) @ map fst cs"
    using assessPostureCalls_log [of cs st] by (simp add: t comp_def)
  have f: "list_all (\<lambda>c. fallKeypointsPresent (snd c)) cs \<longrightarrow>
      map fr_timestamp (fallRiskHistory (assessFallRiskCalls cs st)) =
        map fr_timestamp (fallRiskHistory st) @ map fst cs"
    using assessFallRiskCalls_log [of cs st] by (simp add: t comp_def)
  have s: "scoliosisReadings (assessScoliosis ks st) = scoliosisReadings st"
    by (simp add: assessScoliosis_def Let_def)
  have m: "scoliosisReadings (analyzeMedicalPose now ks st) = scoliosisReadings st"
    by (simp add: analyzeMedicalPose_def assessPosture_def assessFallRisk_def
        assessTherapySession_def s Let_def split: option.splits)
  from p f s m assessPostureCalls_log [of cs st] assessFallRiskCalls_log [of cs st]
    captureReadingCalls_log [of st nows] runSession_logs_prefix [of st acts]
    runSession_initial_sorted [of acts]
  show ?thesis by blast
qed

theorem assessment_logs_append_only_witness:
  "map pa_timestamp (postureAssessments (assessPostureCalls
      [(1000, personFrame 0 0.9), (2000, personFrame 60 0.9), (3000, personFrame 0 0.1)]
      initialState)) = [1000, 2000, 3000] \<and>
   map fr_timestamp (fallRiskHistory (assessFallRiskCalls
      [(1000, personFrame 0 0.9), (2000, personFrame 60 0.9)] initialState)) = [1000, 2000] \<and>
   scoliosisReadings (captureReadingCalls [3000, 3500] (startScoliosisScreen initialState)) =
     [\<lparr>rd_timestamp = 3000, rd_cobbAngle = None, rd_trunkRotation = None,
       rd_shoulderLevel = None\<rparr>,
      \<lparr>rd_timestamp = 3500, rd_cobbAngle = None, rd_trunkRotation = None,
       rd_shoulderLevel = None\<rparr>] \<and>
   sorted (map pa_timestamp (postureAssessments (runSession demoSession initialState))) \<and>
   sorted (map fr_timestamp (fallRiskHistory (runSession demoSession initialState))) \<and>
   sorted (map rd_timestamp (scoliosisReadings (runSession demoSession initialState)))"
proof -
  have p: "list_all (\<lambda>c. postureKeypointsPresent (snd c))
      [(1000, personFrame 0 0.9), (2000, personFrame 60 0.9), (3000, personFrame 0 0.1)]"
    by (simp add: postureKeypointsPresent_def kp_personFrame)
  have f: "list_all (\<lambda>c. fallKeypointsPresent (snd c))
      [(1000, personFrame 0 0.9), (2000, personFrame 60 0.9)]"
    by (simp add: fallKeypointsPresent_def kp_personFrame)
  have m: "medicalMode (startScoliosisScreen initialState) = ''scoliosis''"
    by (simp add: startScoliosisScreen_def switchMedicalTab_def)
  have c: "sorted (concat (map clockReadings demoSession))"
    by (simp add: demoSession_def)
  have i: "postureAssessments initialState = []" "fallRiskHistory initialState = []"
    "scoliosisReadings (startScoliosisScreen initialState) = []"
    "readingOf (startScoliosisScreen initialState) =
       (\<lambda>now. \<lparr>rd_timestamp = now, rd_cobbAngle = None, rd_trunkRotation = None,
         rd_shoulderLevel = None\<rparr>)"
    by (simp_all add: initialState_def startScoliosisScreen_def switchMedicalTab_def
        readingOf_def fun_eq_iff)
  have t: "pa_timestamp (postureEntryOf c) = fst c" "fr_timestamp (fallEntryOf c) = fst c" for c
    by (simp_all add: postureEntryOf_def postureEntry_def fallEntryOf_def fallEntry_def Let_def)
  show ?thesis
    using assessment_logs_append_only
        [where cs = "[(1000, personFrame 0 0.9), (2000, personFrame 60 0.9),
            (3000, personFrame 0 0.1)]"
          and st = initialState and nows = "[]" and acts = demoSession and ks = "[]"
          and now = 0]
      assessment_logs_append_only
        [where cs = "[(1000, personFrame 0 0.9), (2000, personFrame 60 0.9)]"
          and st = initialState and nows = "[]" and acts = "[]" and ks = "[]" and now = 0]
      assessment_logs_append_only
        [where cs = "[]" and st = "startScoliosisScreen initialState"
          and nows = "[3000, 3500]" and acts = "[]" and ks = "[]" and now = 0]
      p f m c
    by (simp add: i t)
qed

text \<open>
  C6 as stated counts the entries of the scoliosis readings by the invocations of the
  module and promises non-decreasing timestamps outright. With the mode \<open>scoliosis\<close> and
  a frame that has every keypoint, the module runs (it writes its read-outs) and two
  invocations leave the readings empty; and two posture assessments whose clock readings
  are 2000 and then 1000 leave a log whose timestamps decrease.
\<close>

theorem scoliosis_module_appends_nothing_and_timestamps_follow_clock:
  "medicalMode (startScoliosisScreen initialState) = ''scoliosis'' \<and>
   cobbAngleShown (analyzeMedicalPose 1000 (personFrame 0 0.9)
     (startScoliosisScreen initialState)) \<noteq> None \<and>
   scoliosisReadings (runSession
     [AnalyzeMedicalPose 1000 (personFrame 0 0.9), AnalyzeMedicalPose 2000 (personFrame 0 0.9)]
     (startScoliosisScreen initialState)) = [] \<and>
   map pa_timestamp (postureAssessments (assessPostureCalls
     [(2000, personFrame 0 0.9), (1000, personFrame 0 0.9)] initialState)) = [2000, 1000] \<and>
   \<not> sorted (map pa_timestamp (postureAssessments (assessPostureCalls
     [(2000, personFrame 0 0.9), (1000, personFrame 0 0.9)] initialState)))"
proof -
  have a: "medicalMode (startScoliosisScreen initialState) = ''scoliosis''"
    "scoliosisReadings (startScoliosisScreen initialState) = []"
    by (simp_all add: startScoliosisScreen_def switchMedicalTab_def initialState_def)
  have b: "analyzeMedicalPose now ks st = assessScoliosis ks st"
    if "medicalMode st = ''scoliosis''" for now ks st
    using that by (simp add: analyzeMedicalPose_def)
  have c: "medicalMode (assessScoliosis ks st) = medicalMode st"
    "scoliosisReadings (assessScoliosis ks st) = scoliosisReadings st" for ks st
    by (simp_all add: assessScoliosis_def Let_def)
  have d: "cobbAngleShown (assessScoliosis (personFrame 0 0.9) st) \<noteq> None" for st
    by (simp add: assessScoliosis_def Let_def kp_personFrame)
  have e: "map pa_timestamp (postureAssessments (assessPostureCalls
     [(2000, personFrame 0 0.9), (1000, personFrame 0 0.9)] initialState)) = [2000, 1000]"
    by (simp add: assessPosture_def Let_def kp_personFrame postureEntry_fields initialState_def)
  show ?thesis
    unfolding e by (simp add: a b c d)
qed

end
